theory Spec2Isabelle
  imports Main "HOL-Library.AList"
begin

section \<open>Request schemas of kinto.core.resource.schema\<close>

text \<open>
  A shallow embedding of \<^verbatim>\<open>src/kinto/core/resource/schema.py\<close>. The schemas of that
  module are colander schema nodes; the part of colander's deserialisation that the module
  relies on (\<^verbatim>\<open>SchemaNode.deserialize\<close>, the \<^verbatim>\<open>Mapping\<close>, \<^verbatim>\<open>Sequence\<close>,
  \<^verbatim>\<open>String\<close> and \<^verbatim>\<open>Integer\<close> types, the \<^verbatim>\<open>Range\<close>, \<^verbatim>\<open>OneOf\<close> and
  \<^verbatim>\<open>Regex\<close> validators) is written out below, each definition next to the Python it stands
  for. A raised \<^verbatim>\<open>colander.Invalid\<close> is the \<open>Inl\<close> branch of a sum.
\<close>

subsection \<open>Values\<close>

text \<open>
  A cstruct is JSON-like data. \<^verbatim>\<open>colander.null\<close> (the field is absent) is not Python's
  \<^verbatim>\<open>None\<close>: an absent cstruct is \<open>None :: json option\<close>, a JSON null is \<open>Some JNull\<close>.
\<close>

datatype json =
    JNull
  | JBool bool
  | JInt int
  | JStr string
  | JList "json list"
  | JObj "(string \<times> json) list"

text \<open>
  An \<^verbatim>\<open>Invalid\<close> exception, flattened as \<^verbatim>\<open>Invalid.asdict()\<close> does: the failing
  nodes, each by its path of node names from the node that raised, with its message.
\<close>

type_synonym invalid = "(string list \<times> string) list"

text \<open>What a node's \<^verbatim>\<open>deserialize\<close> returns: \<^verbatim>\<open>colander.drop\<close> or an appstruct.\<close>

datatype 'a deserialized = Drop | Value 'a

text \<open>
  The \<^verbatim>\<open>missing\<close> attribute of a node: \<^verbatim>\<open>colander.required\<close> (the default),
  \<^verbatim>\<open>colander.drop\<close>, or a default appstruct.
\<close>

datatype missing = Required | DropMissing | Default json

subsection \<open>Regular expressions\<close>

text \<open>
  The patterns of the module are built from literals, \<^verbatim>\<open>\w\<close>, grouping, \<^verbatim>\<open>*\<close> and
  \<^verbatim>\<open>+\<close>. \<open>RWord\<close> is \<^verbatim>\<open>\w\<close> on ASCII text: a letter, a digit or the underscore.
\<close>

datatype rexp =
    REmpty
  | REps
  | RChr char
  | RWord
  | RAlt rexp rexp
  | RSeq rexp rexp
  | RStar rexp

definition RPlus :: "rexp \<Rightarrow> rexp" where
  "RPlus r = RSeq r (RStar r)"

definition is_word_char :: "char \<Rightarrow> bool" where
  "is_word_char c =
     (let n = of_char c :: nat
      in (48 \<le> n \<and> n \<le> 57) \<or> (65 \<le> n \<and> n \<le> 90) \<or> (97 \<le> n \<and> n \<le> 122) \<or> n = 95)"

fun nullable :: "rexp \<Rightarrow> bool" where
  "nullable REmpty = False"
| "nullable REps = True"
| "nullable (RChr c) = False"
| "nullable RWord = False"
| "nullable (RAlt r s) = (nullable r \<or> nullable s)"
| "nullable (RSeq r s) = (nullable r \<and> nullable s)"
| "nullable (RStar r) = True"

fun deriv :: "char \<Rightarrow> rexp \<Rightarrow> rexp" where
  "deriv c REmpty = REmpty"
| "deriv c REps = REmpty"
| "deriv c (RChr d) = (if c = d then REps else REmpty)"
| "deriv c RWord = (if is_word_char c then REps else REmpty)"
| "deriv c (RAlt r s) = RAlt (deriv c r) (deriv c s)"
| "deriv c (RSeq r s) =
     (if nullable r then RAlt (RSeq (deriv c r) s) (deriv c s) else RSeq (deriv c r) s)"
| "deriv c (RStar r) = RSeq (deriv c r) (RStar r)"

text \<open>
  \<^verbatim>\<open>pattern.match(s) is not None\<close>: some prefix of \<open>s\<close>, starting at position 0, is a
  word of the pattern.
\<close>

fun re_match :: "rexp \<Rightarrow> string \<Rightarrow> bool" where
  "re_match r [] = nullable r"
| "re_match r (c # cs) = (nullable r \<or> re_match (deriv c r) cs)"

text \<open>\<^verbatim>\<open>pattern.fullmatch(s) is not None\<close>: the whole of \<open>s\<close> is a word of the pattern.\<close>

fun re_fullmatch :: "rexp \<Rightarrow> string \<Rightarrow> bool" where
  "re_fullmatch r [] = nullable r"
| "re_fullmatch r (c # cs) = re_fullmatch (deriv c r) cs"

text \<open>A pattern with no word at all, read off its syntax.\<close>

fun nothing :: "rexp \<Rightarrow> bool" where
  "nothing REmpty = True"
| "nothing REps = False"
| "nothing (RChr c) = False"
| "nothing RWord = False"
| "nothing (RAlt r s) = (nothing r \<and> nothing s)"
| "nothing (RSeq r s) = (nothing r \<or> nothing s)"
| "nothing (RStar r) = False"

subsection \<open>Validators\<close>

text \<open>
  A validator returns \<open>None\<close> when it accepts and the message of the \<^verbatim>\<open>Invalid\<close> it
  raises otherwise.

  \<^verbatim>\<open>colander.Regex(regex, msg)\<close> compiles the pattern and then
  \<^verbatim>\<open>if self.match_object.match(value) is None: raise Invalid(node, self.msg)\<close>;
  \<open>match_object\<close> says where \<^verbatim>\<open>match\<close> finds a match.
\<close>

definition Regex :: "(string \<Rightarrow> bool) \<Rightarrow> string \<Rightarrow> string \<Rightarrow> string option" where
  "Regex match_object msg v = (if match_object v then None else Some msg)"

fun join :: "string \<Rightarrow> string list \<Rightarrow> string" where
  "join sep [] = []"
| "join sep [x] = x"
| "join sep (x # y # ys) = x @ sep @ join sep (y # ys)"

text \<open>
  \<^verbatim>\<open>colander.OneOf(choices)\<close>: when \<^verbatim>\<open>value not in self.choices\<close>, the message is
  \<^verbatim>\<open>'"${val}" is not one of ${choices}'\<close> with the choices joined by \<^verbatim>\<open>', '\<close>.
\<close>

definition OneOf :: "string list \<Rightarrow> string \<Rightarrow> string option" where
  "OneOf choices v =
     (if v \<in> set choices then None
      else Some (''\"'' @ v @ ''\" is not one of '' @ join '', '' choices))"

text \<open>
  \<^verbatim>\<open>colander.Range(min, max)\<close>: \<^verbatim>\<open>if value < self.min: raise ...\<close>,
  \<^verbatim>\<open>if value > self.max: raise ...\<close>; both bounds are accepted.
\<close>

definition Range :: "int \<Rightarrow> int \<Rightarrow> int \<Rightarrow> string option" where
  "Range mn mx v =
     (if v < mn then Some ''value is less than minimum''
      else if v > mx then Some ''value is greater than maximum''
      else None)"

subsection \<open>Schema nodes\<close>

text \<open>
  A \<^verbatim>\<open>colander.SchemaNode\<close>: its name, its type's \<^verbatim>\<open>deserialize\<close> (which returns
  \<^verbatim>\<open>colander.null\<close>, here \<open>None\<close>, or an appstruct, or raises), its validator and its
  \<^verbatim>\<open>missing\<close> attribute. The children of a mapping or sequence node are held by its type.
\<close>

record node =
  name :: string
  typ_deserialize :: "json option \<Rightarrow> invalid + json option"
  validator :: "json \<Rightarrow> string option"
  missing :: missing

definition no_validator :: "json \<Rightarrow> string option" where
  "no_validator v = None"

text \<open>
  \<^verbatim>\<open>SchemaNode.deserialize\<close>:
  \<^verbatim>\<open>
  appstruct = self.typ.deserialize(self, cstruct)
  if appstruct is null:
      appstruct = self.missing
      if appstruct is required: raise Invalid(self, 'Required')
      return appstruct
  if self.validator is not None: self.validator(self, appstruct)
  return appstruct
  \<close>
\<close>

definition under :: "string \<Rightarrow> invalid \<Rightarrow> invalid" where
  "under nm e = map (\<lambda>(p, m). (nm # p, m)) e"

definition SchemaNode_deserialize :: "node \<Rightarrow> json option \<Rightarrow> invalid + json deserialized" where
  "SchemaNode_deserialize n cstruct =
     (case typ_deserialize n cstruct of
        Inl e \<Rightarrow> Inl (under (name n) e)
      | Inr None \<Rightarrow>
          (case missing n of
             Required \<Rightarrow> Inl [([name n], ''Required'')]
           | DropMissing \<Rightarrow> Inr Drop
           | Default d \<Rightarrow> Inr (Value d))
      | Inr (Some v) \<Rightarrow>
          (case validator n v of
             Some msg \<Rightarrow> Inl [([name n], msg)]
           | None \<Rightarrow> Inr (Value v)))"

text \<open>Python's truth value of a JSON value (\<^verbatim>\<open>not cstruct\<close> is its negation).\<close>

fun truthy :: "json \<Rightarrow> bool" where
  "truthy JNull = False"
| "truthy (JBool b) = b"
| "truthy (JInt n) = (n \<noteq> 0)"
| "truthy (JStr s) = (s \<noteq> [])"
| "truthy (JList xs) = (xs \<noteq> [])"
| "truthy (JObj kvs) = (kvs \<noteq> [])"

text \<open>
  \<^verbatim>\<open>colander.String.deserialize\<close>: \<^verbatim>\<open>if not cstruct: return null\<close>; a string is
  returned as it is. What happens to a true value that is not a string depends on the
  version of colander (\<^verbatim>\<open>text_type(cstruct)\<close> in the older ones, \<^verbatim>\<open>Invalid\<close> in the
  newer ones): \<open>text_type\<close> is that conversion, \<open>None\<close> where it raises.
\<close>

definition String :: "(json \<Rightarrow> string option) \<Rightarrow> json option \<Rightarrow> invalid + json option" where
  "String text_type cstruct =
     (case cstruct of
        None \<Rightarrow> Inr None
      | Some v \<Rightarrow>
          if \<not> truthy v then Inr None
          else (case v of
                  JStr s \<Rightarrow> Inr (Some (JStr s))
                | _ \<Rightarrow> (case text_type v of
                         Some s \<Rightarrow> Inr (Some (JStr s))
                       | None \<Rightarrow> Inl [([], ''is not a string'')])))"

text \<open>
  \<^verbatim>\<open>colander.Integer.deserialize\<close>:
  \<^verbatim>\<open>
  if cstruct != 0 and not cstruct: return null
  try: return int(cstruct)
  except Exception: raise Invalid(node, '"${val}" is not a number')
  \<close>
  \<open>py_int\<close> is Python's \<^verbatim>\<open>int\<close> on a string, \<open>None\<close> where it raises
  \<^verbatim>\<open>ValueError\<close>. \<^verbatim>\<open>False != 0\<close> is false in Python, so \<^verbatim>\<open>False\<close> is converted
  (to 0), as \<^verbatim>\<open>True\<close> is (to 1).
\<close>

definition Integer :: "(string \<Rightarrow> int option) \<Rightarrow> json option \<Rightarrow> invalid + json option" where
  "Integer py_int cstruct =
     (case cstruct of
        None \<Rightarrow> Inr None
      | Some (JInt n) \<Rightarrow> Inr (Some (JInt n))
      | Some (JBool b) \<Rightarrow> Inr (Some (JInt (if b then 1 else 0)))
      | Some (JStr s) \<Rightarrow>
          if s = [] then Inr None
          else (case py_int s of
                  Some n \<Rightarrow> Inr (Some (JInt n))
                | None \<Rightarrow> Inl [([], ''is not a number'')])
      | Some v \<Rightarrow> if \<not> truthy v then Inr None else Inl [([], ''is not a number'')])"

text \<open>\<^verbatim>\<open>kinto.core.schema.Any.deserialize\<close> returns the cstruct as it is.\<close>

definition Any :: "json option \<Rightarrow> invalid + json option" where
  "Any cstruct = Inr cstruct"

text \<open>
  A Python \<^verbatim>\<open>dict\<close> is an association list in insertion order; \<^verbatim>\<open>d[k] = v\<close> is
  \<open>AList.update k v d\<close> (the value is replaced where the key is, a new key goes last),
  \<^verbatim>\<open>d.get(k)\<close> is \<open>map_of d k\<close>, and \<^verbatim>\<open>d.update(e)\<close> assigns the items of \<open>e\<close>
  in order.
\<close>

definition dict_update :: "('k \<times> 'v) list \<Rightarrow> ('k \<times> 'v) list \<Rightarrow> ('k \<times> 'v) list" where
  "dict_update d e = fold (\<lambda>(k, v). AList.update k v) e d"

text \<open>
  \<^verbatim>\<open>colander.Mapping._impl\<close>, deserialising:
  \<^verbatim>\<open>
  for num, subnode in enumerate(node.children):
      name = subnode.name
      subval = value.pop(name, null)
      try: sub_result = callback(subnode, subval)
      except Invalid as e: error.add(e, num)
      else:
          if sub_result is drop: continue
          result[name] = sub_result
  if self.unknown == 'raise':
      if value: raise UnsupportedFields(...)
  elif self.unknown == 'preserve':
      result.update(copy.deepcopy(value))
  if error is not None: raise error
  return result
  \<close>
\<close>

datatype unknown = Ignore | Raise | Preserve

fun Mapping_children ::
  "node list \<Rightarrow> (string \<times> json) list \<Rightarrow> invalid \<times> (string \<times> json) list
     \<Rightarrow> invalid \<times> (string \<times> json) list" where
  "Mapping_children [] value (errs, result) = (errs, result)"
| "Mapping_children (n # ns) value (errs, result) =
     (case SchemaNode_deserialize n (map_of value (name n)) of
        Inl e \<Rightarrow> Mapping_children ns value (errs @ e, result)
      | Inr Drop \<Rightarrow> Mapping_children ns value (errs, result)
      | Inr (Value v) \<Rightarrow> Mapping_children ns value (errs, AList.update (name n) v result))"

definition leftover :: "node list \<Rightarrow> (string \<times> json) list \<Rightarrow> (string \<times> json) list" where
  "leftover children value = filter (\<lambda>(k, v). k \<notin> set (map name children)) value"

definition Mapping :: "unknown \<Rightarrow> node list \<Rightarrow> json option \<Rightarrow> invalid + json option" where
  "Mapping unk children cstruct =
     (case cstruct of
        None \<Rightarrow> Inr None
      | Some (JObj value) \<Rightarrow>
          (let (errs, result) = Mapping_children children value ([], []);
               rest = leftover children value
           in if unk = Raise \<and> rest \<noteq> [] then Inl [([], ''Unrecognized keys in mapping'')]
              else if errs \<noteq> [] then Inl errs
              else Inr (Some (JObj (if unk = Preserve then dict_update result rest else result))))
      | Some _ \<Rightarrow> Inl [([], ''is not a mapping type'')])"

text \<open>
  \<^verbatim>\<open>colander.Sequence\<close> with one child node. \<^verbatim>\<open>_validate\<close> takes a value that is
  iterable, is no string and has no \<^verbatim>\<open>get\<close> as \<^verbatim>\<open>list(value)\<close>, and raises
  \<^verbatim>\<open>Invalid\<close> for any other (\<^verbatim>\<open>accept_scalar\<close> is off): of the JSON values, the
  lists. An element whose node returns \<^verbatim>\<open>drop\<close> is skipped; the errors of the
  elements are collected under their positions.
\<close>

definition digits :: string where
  "digits = ''0123456789''"

fun show_nat :: "nat \<Rightarrow> string" where
  "show_nat n =
     (if n < 10 then [digits ! n]
      else show_nat (n div 10) @ [digits ! (n mod 10)])"

declare show_nat.simps [simp del]

fun Sequence_children :: "node \<Rightarrow> nat \<Rightarrow> json list \<Rightarrow> invalid \<times> json list" where
  "Sequence_children n num [] = ([], [])"
| "Sequence_children n num (subval # rest) =
     (let (errs, result) = Sequence_children n (Suc num) rest
      in case SchemaNode_deserialize (n\<lparr>name := show_nat num\<rparr>) (Some subval) of
           Inl e \<Rightarrow> (e @ errs, result)
         | Inr Drop \<Rightarrow> (errs, result)
         | Inr (Value v) \<Rightarrow> (errs, v # result))"

definition Sequence :: "node \<Rightarrow> json option \<Rightarrow> invalid + json option" where
  "Sequence child cstruct =
     (case cstruct of
        None \<Rightarrow> Inr None
      | Some v \<Rightarrow>
          (case v of
             JList xs \<Rightarrow>
               (let (errs, result) = Sequence_children child 0 xs
                in if errs \<noteq> [] then Inl errs else Inr (Some (JList result)))
           | _ \<Rightarrow> Inl [([], ''is not iterable'')]))"

text \<open>A validator of strings, as a validator of appstructs.\<close>

definition on_str :: "(string \<Rightarrow> string option) \<Rightarrow> json \<Rightarrow> string option" where
  "on_str f v = (case v of JStr s \<Rightarrow> f s | _ \<Rightarrow> Some ''is not a string'')"

definition on_int :: "(int \<Rightarrow> string option) \<Rightarrow> json \<Rightarrow> string option" where
  "on_int f v = (case v of JInt n \<Rightarrow> f n | _ \<Rightarrow> Some ''is not a number'')"

subsection \<open>Querystring bounds\<close>

text \<open>
  \<^verbatim>\<open>POSTGRESQL_MAX_INTEGER_VALUE = 2**64 // 2\<close>,
  \<^verbatim>\<open>positive_big_integer = colander.Range(min=0, max=POSTGRESQL_MAX_INTEGER_VALUE)\<close>.
\<close>

definition POSTGRESQL_MAX_INTEGER_VALUE :: int where
  "POSTGRESQL_MAX_INTEGER_VALUE = 2 ^ 64 div 2"

definition positive_big_integer :: "int \<Rightarrow> string option" where
  "positive_big_integer = Range 0 POSTGRESQL_MAX_INTEGER_VALUE"

subsection \<open>JSON Patch\<close>

text \<open>
  \<^verbatim>\<open>
  class JsonPatchOperationSchema(colander.MappingSchema):
      def op_validator():
          op_values = ['test', 'add', 'remove', 'replace', 'move', 'copy']
          return colander.OneOf(op_values)
      def path_validator():
          return colander.Regex('(/\w*)+')
      op = colander.SchemaNode(colander.String(), validator=op_validator())
      path = colander.SchemaNode(colander.String(), validator=path_validator())
      from_ = colander.SchemaNode(colander.String(), name='from',
                                  validator=path_validator(), missing=colander.drop)
      value = colander.SchemaNode(Any(), missing=colander.drop)
      def schema_type(): return colander.Mapping(unknown='raise')
  \<close>
\<close>

definition op_values :: "string list" where
  "op_values = [''test'', ''add'', ''remove'', ''replace'', ''move'', ''copy'']"

definition op_validator :: "json \<Rightarrow> string option" where
  "op_validator = on_str (OneOf op_values)"

definition pointer_regex :: rexp where
  "pointer_regex = RPlus (RSeq (RChr CHR ''/'') (RStar RWord))"

definition path_validator :: "json \<Rightarrow> string option" where
  "path_validator = on_str (Regex (re_match pointer_regex) ''String does not match expected pattern'')"

definition JsonPatchOperation_children :: "(json \<Rightarrow> string option) \<Rightarrow> node list" where
  "JsonPatchOperation_children text_type =
     [\<lparr>name = ''op'', typ_deserialize = String text_type,
        validator = op_validator, missing = Required\<rparr>,
      \<lparr>name = ''path'', typ_deserialize = String text_type,
        validator = path_validator, missing = Required\<rparr>,
      \<lparr>name = ''from'', typ_deserialize = String text_type,
        validator = path_validator, missing = DropMissing\<rparr>,
      \<lparr>name = ''value'', typ_deserialize = Any,
        validator = no_validator, missing = DropMissing\<rparr>]"

definition JsonPatchOperationSchema :: "(json \<Rightarrow> string option) \<Rightarrow> node" where
  "JsonPatchOperationSchema text_type =
     \<lparr>name = [], typ_deserialize = Mapping Raise (JsonPatchOperation_children text_type),
      validator = no_validator, missing = Required\<rparr>"

text \<open>
  \<^verbatim>\<open>
  class JsonPatchBodySchema(colander.SequenceSchema):
      operations = JsonPatchOperationSchema(missing=colander.drop)
  \<close>
\<close>

definition JsonPatchBodySchema :: "(json \<Rightarrow> string option) \<Rightarrow> node" where
  "JsonPatchBodySchema text_type =
     \<lparr>name = ''body'',
      typ_deserialize =
        Sequence ((JsonPatchOperationSchema text_type)\<lparr>name := ''operations'', missing := DropMissing\<rparr>),
      validator = no_validator, missing = Required\<rparr>"

subsection \<open>Errors of the module's own code\<close>

text \<open>
  Besides \<^verbatim>\<open>colander.Invalid\<close>, the functions of the module can raise Python's own
  exceptions, and whatever \<^verbatim>\<open>pydoc.locate\<close> raises while importing.
\<close>

datatype error =
    Invalid invalid
  | TypeError
  | AttributeError
  | ErrorDuringImport

subsection \<open>Querystring schemas\<close>

text \<open>
  Modelled from the spec: \<^verbatim>\<open>kinto.core.schema.QueryField\<close> is not among the sources.
  A declared querystring field is a schema node with the missing-value policy
  ``dropped-if-absent''.
\<close>

definition QueryField ::
  "string \<Rightarrow> (json option \<Rightarrow> invalid + json option) \<Rightarrow> (json \<Rightarrow> string option) \<Rightarrow> node" where
  "QueryField nm typ v = \<lparr>name = nm, typ_deserialize = typ, validator = v, missing = DropMissing\<rparr>"

text \<open>
  \<^verbatim>\<open>
  class QuerySchema(colander.MappingSchema):
      missing = colander.drop
      def schema_type(): return colander.Mapping(unknown='ignore')
  \<close>
  The declared fields of a subclass are its \<open>children\<close>.
\<close>

definition QuerySchema_node :: "node list \<Rightarrow> node" where
  "QuerySchema_node children =
     \<lparr>name = ''querystring'', typ_deserialize = Mapping Ignore children,
      validator = no_validator, missing = DropMissing\<rparr>"

definition startswith :: "string \<Rightarrow> string \<Rightarrow> bool" where
  "startswith s p = (take (length p) s = p)"

text \<open>
  The loop of \<^verbatim>\<open>QuerySchema.deserialize\<close>:
  \<^verbatim>\<open>
  for k, v in cstruct.items():
      if k.startswith('in_') or k.startswith('exclude_'):
          as_list = FieldList().deserialize(v)
          if isinstance(as_list, list):
              values[k] = [native_value(v) for v in as_list]
      else:
          values[k] = native_value(v)
  \<close>
  \<^verbatim>\<open>kinto.core.utils.native_value\<close> and \<^verbatim>\<open>kinto.core.schema.FieldList\<close> are not among
  the sources: \<open>native_value\<close> is the former, \<open>FieldList\<close> an instance of the latter
  (a schema node; what its \<^verbatim>\<open>deserialize\<close> does to a string before the sequence is
  deserialised is part of its \<open>typ_deserialize\<close>). An \<^verbatim>\<open>Invalid\<close> raised by
  \<^verbatim>\<open>FieldList().deserialize\<close> is not caught.
\<close>

fun QuerySchema_filters ::
  "(json \<Rightarrow> json) \<Rightarrow> node \<Rightarrow> (string \<times> json) list \<Rightarrow> (string \<times> json) list
     \<Rightarrow> error + (string \<times> json) list" where
  "QuerySchema_filters native_value FieldList [] values = Inr values"
| "QuerySchema_filters native_value FieldList ((k, v) # items) values =
     (if startswith k ''in_'' \<or> startswith k ''exclude_'' then
        (case SchemaNode_deserialize FieldList (Some v) of
           Inl e \<Rightarrow> Inl (Invalid e)
         | Inr (Value (JList as_list)) \<Rightarrow>
             QuerySchema_filters native_value FieldList items
               (AList.update k (JList (map native_value as_list)) values)
         | Inr _ \<Rightarrow> QuerySchema_filters native_value FieldList items values)
      else QuerySchema_filters native_value FieldList items
             (AList.update k (native_value v) values))"

text \<open>
  \<^verbatim>\<open>
  def deserialize(self, cstruct=colander.null):
      values = {}
      schema_values = super(QuerySchema, self).deserialize(cstruct)
      if schema_values is colander.drop:
          return schema_values
      for k, v in cstruct.items(): ...
      values.update(schema_values)
      return values
  \<close>
  The mapping type returns a dict only for a dict; for any other cstruct
  \<^verbatim>\<open>cstruct.items()\<close> would raise \<^verbatim>\<open>AttributeError\<close>.
\<close>

definition QuerySchema_deserialize ::
  "(json \<Rightarrow> json) \<Rightarrow> node \<Rightarrow> node list \<Rightarrow> json option \<Rightarrow> error + json deserialized" where
  "QuerySchema_deserialize native_value FieldList children cstruct =
     (case SchemaNode_deserialize (QuerySchema_node children) cstruct of
        Inl e \<Rightarrow> Inl (Invalid e)
      | Inr Drop \<Rightarrow> Inr Drop
      | Inr (Value schema_values) \<Rightarrow>
          (case (cstruct, schema_values) of
             (Some (JObj items), JObj declared) \<Rightarrow>
               (case QuerySchema_filters native_value FieldList items [] of
                  Inl e \<Rightarrow> Inl e
                | Inr values \<Rightarrow> Inr (Value (JObj (dict_update values declared))))
           | _ \<Rightarrow> Inl AttributeError))"

text \<open>
  \<^verbatim>\<open>
  class CollectionQuerySchema(QuerySchema):
      _limit = QueryField(colander.Integer(), validator=positive_big_integer)
      _sort = FieldList()
      _token = QueryField(colander.String())
      _since = QueryField(colander.Integer(), validator=positive_big_integer)
      _to = QueryField(colander.Integer(), validator=positive_big_integer)
      _before = QueryField(colander.Integer(), validator=positive_big_integer)
      id = QueryField(colander.String())
      last_modified = QueryField(colander.Integer(), validator=positive_big_integer)
  \<close>
\<close>

definition CollectionQuerySchema_children ::
  "(string \<Rightarrow> int option) \<Rightarrow> (json \<Rightarrow> string option) \<Rightarrow> node \<Rightarrow> node list" where
  "CollectionQuerySchema_children py_int text_type FieldList =
     [QueryField ''_limit'' (Integer py_int) (on_int positive_big_integer),
      FieldList\<lparr>name := ''_sort''\<rparr>,
      QueryField ''_token'' (String text_type) no_validator,
      QueryField ''_since'' (Integer py_int) (on_int positive_big_integer),
      QueryField ''_to'' (Integer py_int) (on_int positive_big_integer),
      QueryField ''_before'' (Integer py_int) (on_int positive_big_integer),
      QueryField ''id'' (String text_type) no_validator,
      QueryField ''last_modified'' (Integer py_int) (on_int positive_big_integer)]"

text \<open>
  \<^verbatim>\<open>
  class RecordGetQuerySchema(QuerySchema):
      _fields = FieldList()
  class CollectionGetQuerySchema(CollectionQuerySchema):
      _fields = FieldList()
  \<close>
\<close>

definition RecordGetQuerySchema_children :: "node \<Rightarrow> node list" where
  "RecordGetQuerySchema_children FieldList = [FieldList\<lparr>name := ''_fields''\<rparr>]"

definition CollectionGetQuerySchema_children ::
  "(string \<Rightarrow> int option) \<Rightarrow> (json \<Rightarrow> string option) \<Rightarrow> node \<Rightarrow> node list" where
  "CollectionGetQuerySchema_children py_int text_type FieldList =
     CollectionQuerySchema_children py_int text_type FieldList @ [FieldList\<lparr>name := ''_fields''\<rparr>]"

text \<open>
  Modelled from the spec: \<^verbatim>\<open>kinto.core.schema.FieldList\<close> is not among the sources. By
  the spec a list-valued field has its raw value split ``on commas into an ordered
  sequence of tokens'', and is dropped if absent: a sequence node over a node for the
  tokens, whose \<^verbatim>\<open>deserialize\<close> splits a string first
  (\<^verbatim>\<open>cstruct.split(',')\<close>) and leaves any other cstruct to the sequence type. The node
  for the tokens is left open.
\<close>

fun split :: "char \<Rightarrow> string \<Rightarrow> string list" where
  "split sep [] = [[]]"
| "split sep (c # cs) =
     (if c = sep then [] # split sep cs
      else (case split sep cs of
              [] \<Rightarrow> [[c]]
            | t # ts \<Rightarrow> (c # t) # ts))"



subsection \<open>Path schema\<close>

text \<open>
  The bindings that \<^verbatim>\<open>build_path\<close> reads with \<^verbatim>\<open>kwargs.get\<close>; \<open>None\<close> is a key
  that is absent (or \<^verbatim>\<open>None\<close>); the fields are the keys \<^verbatim>\<open>path\<close>,
  \<^verbatim>\<open>resource_name\<close> and \<^verbatim>\<open>id_generators\<close>. The registry \<^verbatim>\<open>id_generators\<close> maps a setting name
  to the dotted name of a generator class.
\<close>

record kwargs =
  kw_path :: "string option"
  kw_resource_name :: "string option"
  kw_id_generators :: "(string \<times> string) list option"

text \<open>
  \<^verbatim>\<open>path.replace('{id}', new)\<close>: every occurrence of \<open>old\<close>, left to right, without
  overlap. (For an empty \<open>old\<close>, which the module never passes, the string is returned
  as it is.)
\<close>

function replace :: "string \<Rightarrow> string \<Rightarrow> string \<Rightarrow> string" where
  "replace old new [] = []"
| "replace old new (c # cs) =
     (if old \<noteq> [] \<and> startswith (c # cs) old
      then new @ replace old new (drop (length old) (c # cs))
      else c # replace old new cs)"
  by pat_completeness auto
termination
  by (relation "measure (\<lambda>(old, new, s). length s)") auto

text \<open>
  \<^verbatim>\<open>[name[1:-1] for name in re.findall('\{.*?\}', path)]\<close>: from an opening brace, the
  shortest run of characters other than a newline up to a closing brace; the search goes
  on after the closing brace, or after the opening one when no match starts there.
\<close>

fun scan_close :: "string \<Rightarrow> (string \<times> string) option" where
  "scan_close [] = None"
| "scan_close (c # cs) =
     (if c = CHR ''}'' then Some ([], cs)
      else if c = CHR 0x0A then None
      else (case scan_close cs of
              None \<Rightarrow> None
            | Some (nm, rest) \<Rightarrow> Some (c # nm, rest)))"

function findall_placeholders :: "string \<Rightarrow> string list" where
  "findall_placeholders [] = []"
| "findall_placeholders (c # cs) =
     (if c = CHR ''{'' then
        (case scan_close cs of
           Some (nm, rest) \<Rightarrow> nm # findall_placeholders rest
         | None \<Rightarrow> findall_placeholders cs)
      else findall_placeholders cs)"
  by pat_completeness auto
termination
proof -
  have shorter: "length rest < length cs" if "scan_close cs = Some (nm, rest)" for cs nm rest
    using that by (induction cs arbitrary: nm rest) (auto split: if_splits option.splits)
  show ?thesis
    by (relation "measure length") (auto dest: shorter)
qed

text \<open>
  The \<^verbatim>\<open>try\<close> block of \<^verbatim>\<open>build_path\<close>:
  \<^verbatim>\<open>
  try:
      resource_id_gen = id_generators.get('{}_generator'.format(rid))
      default_id_gen = id_generators.get('id_generator')
      id_gen = resource_id_gen or default_id_gen
      id_gen = pydoc.locate(id_gen)
      regexp = id_gen.regexp
  except AttributeError:
      regexp = StorageBase.id_generator.regexp
  \<close>
  \<^verbatim>\<open>kwargs.get('id_generators', [])\<close> is a list when the key is absent, and
  \<^verbatim>\<open>[].get\<close> raises \<^verbatim>\<open>AttributeError\<close>. \<^verbatim>\<open>x or y\<close> is \<open>y\<close> when \<open>x\<close> is
  \<^verbatim>\<open>None\<close> or the empty string. \<^verbatim>\<open>pydoc.locate(None)\<close> raises \<^verbatim>\<open>AttributeError\<close>
  (\<^verbatim>\<open>None.split\<close>), and \<^verbatim>\<open>pydoc.locate('')\<close> is the \<^verbatim>\<open>builtins\<close> module, which has
  no \<^verbatim>\<open>regexp\<close>.

  \<open>locate\<close> stands for \<^verbatim>\<open>pydoc.locate(id_gen).regexp\<close> on a dotted name that is not
  empty: \<open>Inr (Some r)\<close> is the pattern of the object found, \<open>Inr None\<close> an
  \<^verbatim>\<open>AttributeError\<close> (nothing found, so \<^verbatim>\<open>None.regexp\<close>, or an object without
  \<^verbatim>\<open>regexp\<close>), \<open>Inl e\<close> any other exception of the import. \<open>baseline\<close> is
  \<^verbatim>\<open>StorageBase.id_generator.regexp\<close>; \<^verbatim>\<open>kinto.core.storage\<close> is not among the sources.
\<close>

definition py_or :: "string option \<Rightarrow> string option \<Rightarrow> string option" where
  "py_or x y = (case x of None \<Rightarrow> y | Some s \<Rightarrow> if s = [] then y else Some s)"

definition resolve_regexp ::
  "(string \<Rightarrow> error + 'r option) \<Rightarrow> 'r \<Rightarrow> (string \<times> string) list option \<Rightarrow> string \<Rightarrow> error + 'r" where
  "resolve_regexp locate baseline id_generators rid =
     (case id_generators of
        None \<Rightarrow> Inr baseline
      | Some gens \<Rightarrow>
          (let resource_id_gen = map_of gens (rid @ ''_generator'');
               default_id_gen = map_of gens ''id_generator'';
               id_gen = py_or resource_id_gen default_id_gen
           in case id_gen of
                None \<Rightarrow> Inr baseline
              | Some g \<Rightarrow>
                  if g = [] then Inr baseline
                  else (case locate g of
                          Inl e \<Rightarrow> Inl e
                        | Inr None \<Rightarrow> Inr baseline
                        | Inr (Some regexp) \<Rightarrow> Inr regexp)))"

text \<open>
  The loop of \<^verbatim>\<open>build_path\<close>, as the fields it assigns and the pattern of each:
  \<^verbatim>\<open>
  for rid in resource_ids:
      try: ... except AttributeError: ...
      if rid == current_resource_id + '_id':
          rid = 'id'
      validator = colander.Regex(regexp, msg="")
      path_schema[rid] = colander.SchemaNode(colander.String(), validator=validator)
  \<close>
  \<^verbatim>\<open>current_resource_id + '_id'\<close> raises \<^verbatim>\<open>TypeError\<close> when
  \<^verbatim>\<open>current_resource_id\<close> is \<^verbatim>\<open>None\<close>. \<^verbatim>\<open>path_schema[rid] = node\<close> replaces the
  child of that name, or adds the node last.
\<close>

fun path_fields ::
  "(string \<Rightarrow> error + 'r option) \<Rightarrow> 'r \<Rightarrow> (string \<times> string) list option \<Rightarrow> string option
     \<Rightarrow> string list \<Rightarrow> (string \<times> 'r) list \<Rightarrow> error + (string \<times> 'r) list" where
  "path_fields locate baseline id_generators current_resource_id [] path_schema = Inr path_schema"
| "path_fields locate baseline id_generators current_resource_id (rid # resource_ids) path_schema =
     (case resolve_regexp locate baseline id_generators rid of
        Inl e \<Rightarrow> Inl e
      | Inr regexp \<Rightarrow>
          (case current_resource_id of
             None \<Rightarrow> Inl TypeError
           | Some r \<Rightarrow>
               path_fields locate baseline id_generators current_resource_id resource_ids
                 (AList.update (if rid = r @ ''_id'' then ''id'' else rid) regexp path_schema)))"

text \<open>
  The head of \<^verbatim>\<open>build_path\<close>:
  \<^verbatim>\<open>
  path = kwargs.get('path')
  if not path: return
  current_resource_id = kwargs.get('resource_name')
  if current_resource_id:
      path = path.replace('{id}', '{{{}_id}}'.format(current_resource_id))
  resource_ids = [name[1:-1] for name in re.findall('\{.*?\}', path)]
  id_generators = kwargs.get('id_generators', [])
  \<close>
  \<open>None\<close> is the \<^verbatim>\<open>return\<close> without a value: the path stays deferred.
\<close>

definition resource_ids_of :: "string \<Rightarrow> string option \<Rightarrow> string list" where
  "resource_ids_of p current_resource_id =
     findall_placeholders
       (case current_resource_id of
          None \<Rightarrow> p
        | Some r \<Rightarrow> if r = [] then p else replace ''{id}'' (''{'' @ r @ ''_id}'') p)"

definition build_path_fields ::
  "(string \<Rightarrow> error + 'r option) \<Rightarrow> 'r \<Rightarrow> kwargs \<Rightarrow> error + (string \<times> 'r) list option" where
  "build_path_fields locate baseline kw =
     (case kw_path kw of
        None \<Rightarrow> Inr None
      | Some p \<Rightarrow>
          if p = [] then Inr None
          else (case path_fields locate baseline (kw_id_generators kw) (kw_resource_name kw)
                       (resource_ids_of p (kw_resource_name kw)) [] of
                  Inl e \<Rightarrow> Inl e
                | Inr fs \<Rightarrow> Inr (Some fs)))"

text \<open>
  The schema that \<^verbatim>\<open>build_path\<close> returns: \<^verbatim>\<open>colander.MappingSchema(name='path')\<close>
  with one \<^verbatim>\<open>SchemaNode(colander.String(), validator=Regex(regexp, msg=""))\<close> for each
  field. \<open>re_compile\<close> is \<^verbatim>\<open>re.compile(regexp).match\<close>.
\<close>

definition path_node ::
  "('r \<Rightarrow> string \<Rightarrow> bool) \<Rightarrow> (json \<Rightarrow> string option) \<Rightarrow> string \<times> 'r \<Rightarrow> node" where
  "path_node re_compile text_type f =
     \<lparr>name = fst f, typ_deserialize = String text_type,
      validator = on_str (Regex (re_compile (snd f)) []), missing = Required\<rparr>"

definition build_path ::
  "('r \<Rightarrow> string \<Rightarrow> bool) \<Rightarrow> (json \<Rightarrow> string option) \<Rightarrow> (string \<Rightarrow> error + 'r option) \<Rightarrow> 'r
     \<Rightarrow> kwargs \<Rightarrow> error + node option" where
  "build_path re_compile text_type locate baseline kw =
     (case build_path_fields locate baseline kw of
        Inl e \<Rightarrow> Inl e
      | Inr None \<Rightarrow> Inr None
      | Inr (Some fs) \<Rightarrow>
          Inr (Some \<lparr>name = ''path'',
                     typ_deserialize = Mapping Ignore (map (path_node re_compile text_type) fs),
                     validator = no_validator, missing = Required\<rparr>))"

text \<open>
  \<^verbatim>\<open>return build_path(node, kwargs) or colander.deferred(build_path)\<close>, as
  \<^verbatim>\<open>SchemaNode.bind\<close> applies it: a schema node that is returned takes the place of
  the child named \<^verbatim>\<open>path\<close>; when \<^verbatim>\<open>build_path\<close> returns nothing the attribute stays
  deferred and the children are left as they are. The state is the \<^verbatim>\<open>path\<close> child of
  the request schema, \<open>None\<close> while there is none.
\<close>

definition bind_path ::
  "('r \<Rightarrow> string \<Rightarrow> bool) \<Rightarrow> (json \<Rightarrow> string option) \<Rightarrow> (string \<Rightarrow> error + 'r option) \<Rightarrow> 'r
     \<Rightarrow> kwargs \<Rightarrow> node option \<Rightarrow> error + node option" where
  "bind_path re_compile text_type locate baseline kw child =
     (case build_path re_compile text_type locate baseline kw of
        Inl e \<Rightarrow> Inl e
      | Inr None \<Rightarrow> Inr child
      | Inr (Some schema) \<Rightarrow> Inr (Some schema))"

subsection \<open>Permissions schema\<close>

text \<open>
  \<^verbatim>\<open>
  def _get_node_principals(self, perm):
      principal = colander.SchemaNode(colander.String())
      return colander.SchemaNode(colander.Sequence(), principal, name=perm,
                                 missing=colander.drop)
  \<close>
\<close>

definition principal :: "(json \<Rightarrow> string option) \<Rightarrow> node" where
  "principal text_type =
     \<lparr>name = [], typ_deserialize = String text_type, validator = no_validator, missing = Required\<rparr>"

definition get_node_principals :: "(json \<Rightarrow> string option) \<Rightarrow> string \<Rightarrow> node" where
  "get_node_principals text_type perm =
     \<lparr>name = perm, typ_deserialize = Sequence (principal text_type),
      validator = no_validator, missing = DropMissing\<rparr>"

text \<open>
  \<^verbatim>\<open>SchemaNode.__setitem__\<close>: the new node takes the place of the child of the same
  name, or is added last.
\<close>

fun setitem :: "node \<Rightarrow> node list \<Rightarrow> node list" where
  "setitem n [] = [n]"
| "setitem n (m # ms) = (if name m = name n then n # ms else m # setitem n ms)"

text \<open>
  \<^verbatim>\<open>
  def __init__(self, *args, **kwargs):
      self.known_perms = kwargs.pop('permissions', tuple())
      super(PermissionsSchema, self).__init__(*args, **kwargs)
      for perm in self.known_perms:
          self[perm] = self._get_node_principals(perm)
  def schema_type(self):
      if self.known_perms: return colander.Mapping(unknown='raise')
      else: return colander.Mapping(unknown='preserve')
  \<close>
  The name and the \<^verbatim>\<open>missing\<close> attribute of the schema are those of the keyword
  arguments.
\<close>

definition PermissionsSchema_children :: "(json \<Rightarrow> string option) \<Rightarrow> string list \<Rightarrow> node list" where
  "PermissionsSchema_children text_type known_perms =
     fold (\<lambda>perm. setitem (get_node_principals text_type perm)) known_perms []"

definition PermissionsSchema_node ::
  "(json \<Rightarrow> string option) \<Rightarrow> string list \<Rightarrow> string \<Rightarrow> missing \<Rightarrow> node" where
  "PermissionsSchema_node text_type known_perms nm mis =
     \<lparr>name = nm,
      typ_deserialize = Mapping (if known_perms \<noteq> [] then Raise else Preserve)
                          (PermissionsSchema_children text_type known_perms),
      validator = no_validator, missing = mis\<rparr>"

text \<open>
  \<^verbatim>\<open>for perm in cstruct: colander.OneOf(choices=self.known_perms)(self, perm)\<close>: the
  first key that is not a known permission raises, on the permissions node.
\<close>

fun check_perms :: "string list \<Rightarrow> string \<Rightarrow> string list \<Rightarrow> invalid option" where
  "check_perms known_perms nm [] = None"
| "check_perms known_perms nm (perm # perms) =
     (case OneOf known_perms perm of
        Some msg \<Rightarrow> Some [([nm], msg)]
      | None \<Rightarrow> check_perms known_perms nm perms)"

text \<open>
  \<^verbatim>\<open>
  permissions = {}
  perm_schema = colander.SequenceSchema(colander.SchemaNode(colander.String()))
  for perm, principals in cstruct.items():
      permissions[perm] = perm_schema.deserialize(principals)
  return permissions
  \<close>
  \<^verbatim>\<open>perm_schema\<close> is required, so its \<^verbatim>\<open>deserialize\<close> returns a list or raises.
\<close>

definition perm_schema :: "(json \<Rightarrow> string option) \<Rightarrow> node" where
  "perm_schema text_type =
     \<lparr>name = [], typ_deserialize = Sequence (principal text_type),
      validator = no_validator, missing = Required\<rparr>"

fun open_permissions ::
  "(json \<Rightarrow> string option) \<Rightarrow> (string \<times> json) list \<Rightarrow> (string \<times> json) list
     \<Rightarrow> invalid + (string \<times> json) list" where
  "open_permissions text_type [] permissions = Inr permissions"
| "open_permissions text_type ((perm, principals) # items) permissions =
     (case SchemaNode_deserialize (perm_schema text_type) (Some principals) of
        Inl e \<Rightarrow> Inl e
      | Inr Drop \<Rightarrow> open_permissions text_type items permissions
      | Inr (Value v) \<Rightarrow> open_permissions text_type items (AList.update perm v permissions))"

text \<open>
  \<^verbatim>\<open>
  def deserialize(self, cstruct=colander.null):
      if not isinstance(cstruct, dict):
          return super(PermissionsSchema, self).deserialize(cstruct)
      if self.known_perms:
          for perm in cstruct:
              colander.OneOf(choices=self.known_perms)(self, perm)
          return super(PermissionsSchema, self).deserialize(cstruct)
      permissions = {} ...
  \<close>
\<close>

definition PermissionsSchema_deserialize ::
  "(json \<Rightarrow> string option) \<Rightarrow> string list \<Rightarrow> string \<Rightarrow> missing \<Rightarrow> json option
     \<Rightarrow> invalid + json deserialized" where
  "PermissionsSchema_deserialize text_type known_perms nm mis cstruct =
     (case cstruct of
        Some (JObj items) \<Rightarrow>
          if known_perms \<noteq> [] then
            (case check_perms known_perms nm (map fst items) of
               Some e \<Rightarrow> Inl e
             | None \<Rightarrow>
                 SchemaNode_deserialize (PermissionsSchema_node text_type known_perms nm mis) cstruct)
          else
            (case open_permissions text_type items [] of
               Inl e \<Rightarrow> Inl e
             | Inr permissions \<Rightarrow> Inr (Value (JObj permissions)))
      | _ \<Rightarrow> SchemaNode_deserialize (PermissionsSchema_node text_type known_perms nm mis) cstruct)"

subsection \<open>Record body schema\<close>

text \<open>
  \<^verbatim>\<open>
  @colander.deferred
  def data(node, kwargs):
      data = kwargs.get('data')
      if data:
          try:
              data.deserialize({})
          except colander.Invalid:
              pass
          else:
              data.default = {}
              data.missing = colander.drop
      return data
  \<close>
  \<open>None\<close> is a binding that is absent. (\<^verbatim>\<open>default\<close> is read when serialising only.)
\<close>

definition RecordSchema_data :: "node option \<Rightarrow> node option" where
  "RecordSchema_data data =
     (case data of
        None \<Rightarrow> None
      | Some d \<Rightarrow>
          (case SchemaNode_deserialize d (Some (JObj [])) of
             Inl e \<Rightarrow> Some d
           | Inr r \<Rightarrow> Some (d\<lparr>missing := DropMissing\<rparr>)))"

text \<open>
  A node returned by a deferred attribute becomes the child of that attribute's name
  (\<^verbatim>\<open>if not v.name: v.name = k\<close>).
\<close>

definition named :: "string \<Rightarrow> node \<Rightarrow> node" where
  "named k v = (if name v = [] then v\<lparr>name := k\<rparr> else v)"

text \<open>
  \<^verbatim>\<open>
  class RecordSchema(colander.MappingSchema):
      data = deferred ...
      permissions = deferred: kwargs.get('permissions'), else still deferred
      def schema_type(): return colander.Mapping(unknown='raise')
  \<close>
  bound with the \<^verbatim>\<open>data\<close> and \<^verbatim>\<open>permissions\<close> schemas of the resource. An attribute that
  is still deferred is no child.
\<close>

definition RecordSchema_children :: "node option \<Rightarrow> node option \<Rightarrow> node list" where
  "RecordSchema_children data permissions =
     (case RecordSchema_data data of None \<Rightarrow> [] | Some d \<Rightarrow> [named ''data'' d])
     @ (case permissions of None \<Rightarrow> [] | Some p \<Rightarrow> [named ''permissions'' p])"

definition RecordSchema :: "node option \<Rightarrow> node option \<Rightarrow> node" where
  "RecordSchema data permissions =
     \<lparr>name = ''body'', typ_deserialize = Mapping Raise (RecordSchema_children data permissions),
      validator = no_validator, missing = Required\<rparr>"

text \<open>
  A resource's data schema: \<^verbatim>\<open>ResourceSchema\<close>, a mapping that keeps unknown fields
  (\<^verbatim>\<open>preserve_unknown = True\<close>) or ignores them.
\<close>

definition ResourceSchema :: "bool \<Rightarrow> node list \<Rightarrow> node" where
  "ResourceSchema preserve_unknown children =
     \<lparr>name = [], typ_deserialize = Mapping (if preserve_unknown then Preserve else Ignore) children,
      validator = no_validator, missing = Required\<rparr>"

section \<open>Properties\<close>

subsection \<open>The pointer pattern\<close>

lemma nothing_not_nullable: "nothing r \<Longrightarrow> \<not> nullable r"
  by (induction r) auto

lemma nothing_deriv: "nothing r \<Longrightarrow> nothing (deriv c r)"
  by (induction r) (auto simp: nothing_not_nullable)

lemma nothing_no_match: "nothing r \<Longrightarrow> \<not> re_match r s"
  by (induction s arbitrary: r) (auto simp: nothing_not_nullable nothing_deriv)

lemma nullable_re_match: "nullable r \<Longrightarrow> re_match r s"
  by (cases s) auto

lemma pointer_regex_slash: "re_match pointer_regex (CHR ''/'' # t)"
proof -
  have "nullable (deriv CHR ''/'' pointer_regex)"
    by (simp add: pointer_regex_def RPlus_def)
  then show ?thesis by (simp add: nullable_re_match)
qed

lemma pointer_regex_other: "c \<noteq> CHR ''/'' \<Longrightarrow> \<not> re_match pointer_regex (c # t)"
proof -
  assume "c \<noteq> CHR ''/''"
  then have "nothing (deriv c pointer_regex)"
    by (simp add: pointer_regex_def RPlus_def)
  then have "\<not> re_match (deriv c pointer_regex) t"
    by (rule nothing_no_match)
  moreover have "\<not> nullable pointer_regex"
    by (simp add: pointer_regex_def RPlus_def)
  ultimately show ?thesis by simp
qed

lemma pointer_regex_nil: "\<not> re_match pointer_regex []"
  by (simp add: pointer_regex_def RPlus_def)

lemma path_validator_slash: "path_validator (JStr (CHR ''/'' # t)) = None"
  by (simp add: path_validator_def on_str_def Regex_def pointer_regex_slash del: re_match.simps)

lemma not_fullmatch_a_b: "\<not> re_fullmatch pointer_regex ''/a b''"
  by (simp add: pointer_regex_def RPlus_def is_word_char_def)

text \<open>
  C10. The pointer check on \<^verbatim>\<open>path\<close> and \<^verbatim>\<open>from\<close> is a prefix match. The validator
  accepts every string that begins with a slash, whatever follows: \<^verbatim>\<open>"/a b"\<close> and
  \<^verbatim>\<open>"/a!?"\<close> are accepted although neither is, as a whole, a word of \<^verbatim>\<open>(/\w*)+\<close>, and
  an operation carrying them as \<^verbatim>\<open>path\<close> and \<^verbatim>\<open>from\<close> validates.
\<close>

theorem path_validator_is_prefix_match:
  "path_validator (JStr (CHR ''/'' # t)) = None
   \<and> path_validator (JStr ''/a b'') = None \<and> \<not> re_fullmatch pointer_regex ''/a b''
   \<and> path_validator (JStr ''/a!?'') = None \<and> \<not> re_fullmatch pointer_regex ''/a!?''
   \<and> SchemaNode_deserialize (JsonPatchOperationSchema text_type)
         (Some (JObj [(''op'', JStr ''move''), (''path'', JStr ''/a b''), (''from'', JStr ''/a!?'')]))
       = Inr (Value (JObj [(''op'', JStr ''move''), (''path'', JStr ''/a b''), (''from'', JStr ''/a!?'')]))"
proof -
  have 2: "\<not> re_fullmatch pointer_regex ''/a!?''"
    by (simp add: pointer_regex_def RPlus_def is_word_char_def)
  have 3: "SchemaNode_deserialize (JsonPatchOperationSchema text_type)
         (Some (JObj [(''op'', JStr ''move''), (''path'', JStr ''/a b''), (''from'', JStr ''/a!?'')]))
       = Inr (Value (JObj [(''op'', JStr ''move''), (''path'', JStr ''/a b''), (''from'', JStr ''/a!?'')]))"
    by (simp add: SchemaNode_deserialize_def JsonPatchOperationSchema_def
        JsonPatchOperation_children_def Mapping_def leftover_def String_def Any_def
        op_validator_def on_str_def OneOf_def op_values_def path_validator_slash no_validator_def)
  show ?thesis using not_fullmatch_a_b 2 3 by (simp add: path_validator_slash)
qed

text \<open>
  C6, at the input \<^verbatim>\<open>{"op": "add", "path": "/a b"}\<close>: the operation validates, and is
  returned as it is, although its \<^verbatim>\<open>path\<close> is not a word of the pointer grammar
  \<^verbatim>\<open>(/\w*)+\<close>.
\<close>

theorem patch_path_outside_grammar_accepted:
  "SchemaNode_deserialize (JsonPatchOperationSchema text_type)
      (Some (JObj [(''op'', JStr ''add''), (''path'', JStr ''/a b'')]))
    = Inr (Value (JObj [(''op'', JStr ''add''), (''path'', JStr ''/a b'')]))
   \<and> \<not> re_fullmatch pointer_regex ''/a b''"
proof -
  have "SchemaNode_deserialize (JsonPatchOperationSchema text_type)
      (Some (JObj [(''op'', JStr ''add''), (''path'', JStr ''/a b'')]))
    = Inr (Value (JObj [(''op'', JStr ''add''), (''path'', JStr ''/a b'')]))"
    by (simp add: SchemaNode_deserialize_def JsonPatchOperationSchema_def
        JsonPatchOperation_children_def Mapping_def leftover_def String_def Any_def
        op_validator_def on_str_def OneOf_def op_values_def path_validator_slash no_validator_def)
  then show ?thesis using not_fullmatch_a_b by simp
qed

subsection \<open>Integer bounds of the querystring\<close>

text \<open>
  C9, at the input \<^verbatim>\<open>_limit = 9223372036854775808\<close> (that is \<open>2 ^ 63\<close>): the validator
  of the integer fields accepts it, and each of the five integer fields of the collection
  querystring returns it (also when it comes as the string of the querystring, read by
  \<^verbatim>\<open>int\<close>), although it is above \<open>2 ^ 63 - 1\<close>. The first value refused is
  \<open>2 ^ 63 + 1\<close>.
\<close>

theorem positive_big_integer_accepts_2_63:
  "positive_big_integer (2 ^ 63) = None
   \<and> (2 ^ 63 :: int) > 2 ^ 63 - 1
   \<and> map (\<lambda>n. (name n, SchemaNode_deserialize n (Some (JInt (2 ^ 63)))))
         (filter (\<lambda>n. name n \<in> set [''_limit'', ''_since'', ''_to'', ''_before'', ''last_modified''])
            (CollectionQuerySchema_children py_int text_type FieldList))
      = [(''_limit'', Inr (Value (JInt (2 ^ 63)))),
         (''_since'', Inr (Value (JInt (2 ^ 63)))),
         (''_to'', Inr (Value (JInt (2 ^ 63)))),
         (''_before'', Inr (Value (JInt (2 ^ 63)))),
         (''last_modified'', Inr (Value (JInt (2 ^ 63))))]
   \<and> SchemaNode_deserialize
        (QueryField ''_limit''
           (Integer (\<lambda>s. if s = ''9223372036854775808'' then Some (2 ^ 63) else None))
           (on_int positive_big_integer))
        (Some (JStr ''9223372036854775808''))
      = Inr (Value (JInt (2 ^ 63)))
   \<and> positive_big_integer (2 ^ 63 + 1) \<noteq> None"
  by (simp add: positive_big_integer_def Range_def POSTGRESQL_MAX_INTEGER_VALUE_def
      CollectionQuerySchema_children_def QueryField_def SchemaNode_deserialize_def
      Integer_def on_int_def)

subsection \<open>Path binding\<close>

lemma set_update_subset: "set (AList.update k v al) \<subseteq> insert (k, v) (set al)"
  by (induction al) auto

lemma path_fields_origin:
  "path_fields locate baseline gens (Some r) rids acc = Inr fs \<Longrightarrow> (nm, re) \<in> set fs \<Longrightarrow>
     (nm, re) \<in> set acc \<or>
     (\<exists>rid \<in> set rids. nm = (if rid = r @ ''_id'' then ''id'' else rid)
         \<and> resolve_regexp locate baseline gens rid = Inr re)"
proof (induction rids arbitrary: acc)
  case Nil
  then show ?case by simp
next
  case (Cons rid rids)
  from Cons.prems(1) obtain regexp where
    res: "resolve_regexp locate baseline gens rid = Inr regexp"
    and rest: "path_fields locate baseline gens (Some r) rids
                 (AList.update (if rid = r @ ''_id'' then ''id'' else rid) regexp acc) = Inr fs"
    by (auto split: sum.splits)
  from Cons.IH [OF rest Cons.prems(2)] show ?case
  proof
    assume "(nm, re) \<in> set (AList.update (if rid = r @ ''_id'' then ''id'' else rid) regexp acc)"
    then have "(nm, re) = ((if rid = r @ ''_id'' then ''id'' else rid), regexp) \<or> (nm, re) \<in> set acc"
      using set_update_subset by fastforce
    then show ?thesis using res by auto
  next
    assume "\<exists>rid\<in>set rids. nm = (if rid = r @ ''_id'' then ''id'' else rid)
               \<and> resolve_regexp locate baseline gens rid = Inr re"
    then show ?thesis by auto
  qed
qed

lemma path_fields_names:
  "path_fields locate baseline gens (Some r) rids acc = Inr fs \<Longrightarrow>
     fst ` set fs = fst ` set acc \<union> (\<lambda>rid. if rid = r @ ''_id'' then ''id'' else rid) ` set rids"
proof (induction rids arbitrary: acc)
  case Nil
  then show ?case by simp
next
  case (Cons rid rids)
  from Cons.prems(1) obtain regexp where
    rest: "path_fields locate baseline gens (Some r) rids
                 (AList.update (if rid = r @ ''_id'' then ''id'' else rid) regexp acc) = Inr fs"
    by (auto split: sum.splits)
  from Cons.IH [OF rest] show ?case
    by (simp add: AList.dom_update) blast
qed

lemma resolve_regexp_cases:
  assumes "resolve_regexp locate baseline (Some gens) rid = Inr regexp"
  shows "(\<forall>g. py_or (map_of gens (rid @ ''_generator'')) None = Some g \<longrightarrow>
            locate g = Inr (Some regexp) \<or> (locate g = Inr None \<and> regexp = baseline))
       \<and> (\<forall>d. py_or (map_of gens (rid @ ''_generator'')) None = None \<longrightarrow>
              py_or (map_of gens ''id_generator'') None = Some d \<longrightarrow>
            locate d = Inr (Some regexp) \<or> (locate d = Inr None \<and> regexp = baseline))
       \<and> (py_or (map_of gens (rid @ ''_generator'')) None = None \<longrightarrow>
              py_or (map_of gens ''id_generator'') None = None \<longrightarrow> regexp = baseline)"
  using assms
  by (auto simp: resolve_regexp_def py_or_def Let_def split: option.splits if_splits sum.splits)

text \<open>
  C1, as amended. Let the path be bound for the resource \<open>r\<close> with a registry
  \<open>gens\<close>. The fields of the path schema are the placeholders of the template (after
  \<^verbatim>\<open>{id}\<close> has become \<^verbatim>\<open>{r_id}\<close>), the placeholder \<^verbatim>\<open>r_id\<close> under the name
  \<^verbatim>\<open>id\<close>. The pattern of the field of a placeholder \<open>rid\<close> is chosen so: the generator
  under the key \<open>rid @ ''_generator''\<close> (for the placeholder \<^verbatim>\<open>x_id\<close> the key
  \<^verbatim>\<open>x_id_generator\<close>) when that key holds a name that is not empty; otherwise the
  generator under \<^verbatim>\<open>id_generator\<close> when that key holds such a name; otherwise the
  baseline pattern. The pattern is that of the generator chosen, or the baseline pattern
  when the generator chosen cannot be located or has no \<^verbatim>\<open>regexp\<close>.
\<close>

theorem build_path_regexp_precedence:
  assumes "build_path_fields locate baseline kw = Inr (Some fs)"
    and "kw_path kw = Some p"
    and "kw_resource_name kw = Some r"
    and "kw_id_generators kw = Some gens"
  shows "fst ` set fs =
           (\<lambda>rid. if rid = r @ ''_id'' then ''id'' else rid) ` set (resource_ids_of p (Some r))
       \<and> (\<forall>(nm, regexp) \<in> set fs.
            \<exists>rid \<in> set (resource_ids_of p (Some r)).
               nm = (if rid = r @ ''_id'' then ''id'' else rid)
             \<and> (\<forall>g. py_or (map_of gens (rid @ ''_generator'')) None = Some g \<longrightarrow>
                    locate g = Inr (Some regexp) \<or> (locate g = Inr None \<and> regexp = baseline))
             \<and> (\<forall>d. py_or (map_of gens (rid @ ''_generator'')) None = None \<longrightarrow>
                    py_or (map_of gens ''id_generator'') None = Some d \<longrightarrow>
                    locate d = Inr (Some regexp) \<or> (locate d = Inr None \<and> regexp = baseline))
             \<and> (py_or (map_of gens (rid @ ''_generator'')) None = None \<longrightarrow>
                    py_or (map_of gens ''id_generator'') None = None \<longrightarrow> regexp = baseline))"
proof (intro conjI ballI)
  from assms have pf: "path_fields locate baseline (Some gens) (Some r)
        (resource_ids_of p (Some r)) [] = Inr fs"
    by (auto simp: build_path_fields_def split: if_splits sum.splits)
  from path_fields_names [OF pf]
  show "fst ` set fs =
           (\<lambda>rid. if rid = r @ ''_id'' then ''id'' else rid) ` set (resource_ids_of p (Some r))"
    by simp
  fix x assume x: "x \<in> set fs"
  obtain nm regexp where nr: "x = (nm, regexp)" by (cases x)
  from path_fields_origin [OF pf x [unfolded nr]] obtain rid where
    rid: "rid \<in> set (resource_ids_of p (Some r))"
      "nm = (if rid = r @ ''_id'' then ''id'' else rid)"
      "resolve_regexp locate baseline (Some gens) rid = Inr regexp"
    by auto
  have "\<exists>rid \<in> set (resource_ids_of p (Some r)).
               nm = (if rid = r @ ''_id'' then ''id'' else rid)
             \<and> (\<forall>g. py_or (map_of gens (rid @ ''_generator'')) None = Some g \<longrightarrow>
                    locate g = Inr (Some regexp) \<or> (locate g = Inr None \<and> regexp = baseline))
             \<and> (\<forall>d. py_or (map_of gens (rid @ ''_generator'')) None = None \<longrightarrow>
                    py_or (map_of gens ''id_generator'') None = Some d \<longrightarrow>
                    locate d = Inr (Some regexp) \<or> (locate d = Inr None \<and> regexp = baseline))
             \<and> (py_or (map_of gens (rid @ ''_generator'')) None = None \<longrightarrow>
                    py_or (map_of gens ''id_generator'') None = None \<longrightarrow> regexp = baseline)"
    by (rule bexI [OF _ rid(1)]) (rule conjI [OF rid(2) resolve_regexp_cases [OF rid(3)]])
  then show "case x of (nm, regexp) \<Rightarrow>
            \<exists>rid \<in> set (resource_ids_of p (Some r)).
               nm = (if rid = r @ ''_id'' then ''id'' else rid)
             \<and> (\<forall>g. py_or (map_of gens (rid @ ''_generator'')) None = Some g \<longrightarrow>
                    locate g = Inr (Some regexp) \<or> (locate g = Inr None \<and> regexp = baseline))
             \<and> (\<forall>d. py_or (map_of gens (rid @ ''_generator'')) None = None \<longrightarrow>
                    py_or (map_of gens ''id_generator'') None = Some d \<longrightarrow>
                    locate d = Inr (Some regexp) \<or> (locate d = Inr None \<and> regexp = baseline))
             \<and> (py_or (map_of gens (rid @ ''_generator'')) None = None \<longrightarrow>
                    py_or (map_of gens ''id_generator'') None = None \<longrightarrow> regexp = baseline)"
    unfolding nr by simp
qed

theorem build_path_regexp_precedence_witness:
  "build_path_fields (\<lambda>g. Inr (Some g)) ''baseline''
     \<lparr>kw_path = Some ''/buckets/{bucket_id}/bars/{id}/{x}'', kw_resource_name = Some ''bar'',
      kw_id_generators = Some [(''bar_id_generator'', ''G1''), (''id_generator'', ''G2'')]\<rparr>
   = Inr (Some [(''bucket_id'', ''G2''), (''id'', ''G1''), (''x'', ''G2'')])
   \<and> fst ` set [(''bucket_id'', ''G2''), (''id'', ''G1''), (''x'', ''G2'')] =
       (\<lambda>rid. if rid = ''bar'' @ ''_id'' then ''id'' else rid)
          ` set (resource_ids_of ''/buckets/{bucket_id}/bars/{id}/{x}'' (Some ''bar''))"
proof -
  let ?kw = "\<lparr>kw_path = Some ''/buckets/{bucket_id}/bars/{id}/{x}'', kw_resource_name = Some ''bar'',
      kw_id_generators = Some [(''bar_id_generator'', ''G1''), (''id_generator'', ''G2'')]\<rparr>"
  have h1: "build_path_fields (\<lambda>g. Inr (Some g)) ''baseline'' ?kw
      = Inr (Some [(''bucket_id'', ''G2''), (''id'', ''G1''), (''x'', ''G2'')])"
    by (simp add: build_path_fields_def resource_ids_of_def resolve_regexp_def py_or_def startswith_def)
  have h2: "kw_path ?kw = Some ''/buckets/{bucket_id}/bars/{id}/{x}''" by simp
  have h3: "kw_resource_name ?kw = Some ''bar''" by simp
  have h4: "kw_id_generators ?kw = Some [(''bar_id_generator'', ''G1''), (''id_generator'', ''G2'')]"
    by simp
  from h1 build_path_regexp_precedence [OF h1 h2 h3 h4, THEN conjunct1] show ?thesis
    by (rule conjI)
qed

text \<open>
  C1, as stated, fails: a generator under the key \<^verbatim>\<open>bar_generator\<close> is never read for
  the resource \<^verbatim>\<open>bar\<close>. With \<^verbatim>\<open>bar_generator\<close> and \<^verbatim>\<open>id_generator\<close> both
  configured, \<^verbatim>\<open>{id}\<close> gets the pattern of the default generator.
\<close>

theorem bar_generator_key_not_read:
  "build_path_fields (\<lambda>g. Inr (Some g)) ''baseline''
     \<lparr>kw_path = Some ''/bars/{id}'', kw_resource_name = Some ''bar'',
      kw_id_generators = Some [(''bar_generator'', ''G1''), (''id_generator'', ''G2'')]\<rparr>
   = Inr (Some [(''id'', ''G2'')])
   \<and> ''G2'' \<noteq> ''G1''"
  by (simp add: build_path_fields_def resource_ids_of_def resolve_regexp_def py_or_def startswith_def)

text \<open>
  C8, at the input \<^verbatim>\<open>path = '/buckets/{bucket_id}'\<close> with no \<^verbatim>\<open>resource_name\<close>:
  \<^verbatim>\<open>build_path\<close> raises \<^verbatim>\<open>TypeError\<close> (from \<^verbatim>\<open>current_resource_id + '_id'\<close>),
  whatever the registry is, instead of returning a schema.
\<close>

theorem build_path_without_resource_name_raises:
  "build_path re_compile text_type locate baseline
     \<lparr>kw_path = Some ''/buckets/{bucket_id}'', kw_resource_name = None, kw_id_generators = Some []\<rparr>
   = Inl TypeError
   \<and> build_path re_compile text_type locate baseline
     \<lparr>kw_path = Some ''/buckets/{bucket_id}'', kw_resource_name = None, kw_id_generators = None\<rparr>
   = Inl TypeError"
  by (simp add: build_path_def build_path_fields_def resource_ids_of_def resolve_regexp_def py_or_def)

text \<open>
  C3. Binding is idempotent: when binding a template with a context succeeds, binding the
  result again with the same template and context succeeds with the same path schema, and
  the two schemas deserialise every input to the same result (the same appstruct, or the
  same \<^verbatim>\<open>Invalid\<close>).
\<close>

theorem bind_path_idempotent:
  assumes "bind_path re_compile text_type locate baseline kw child = Inr s1"
  shows "\<exists>s2. bind_path re_compile text_type locate baseline kw s1 = Inr s2 \<and> s2 = s1
           \<and> (\<forall>n1 n2 c. s1 = Some n1 \<longrightarrow> s2 = Some n2 \<longrightarrow>
                 SchemaNode_deserialize n1 c = SchemaNode_deserialize n2 c)"
  using assms by (auto simp: bind_path_def split: sum.splits option.splits)

theorem bind_path_idempotent_witness:
  "bind_path (\<lambda>r s. r = s) (\<lambda>v. None) (\<lambda>g. Inr (Some g)) ''baseline''
     \<lparr>kw_path = Some ''/bars/{id}'', kw_resource_name = Some ''bar'',
      kw_id_generators = Some [(''id_generator'', ''G2'')]\<rparr> None
   = Inr (Some \<lparr>name = ''path'',
                 typ_deserialize = Mapping Ignore
                   (map (path_node (\<lambda>r s. r = s) (\<lambda>v. None)) [(''id'', ''G2'')]),
                 validator = no_validator, missing = Required\<rparr>)
   \<and> bind_path (\<lambda>r s. r = s) (\<lambda>v. None) (\<lambda>g. Inr (Some g)) ''baseline''
     \<lparr>kw_path = Some ''/bars/{id}'', kw_resource_name = Some ''bar'',
      kw_id_generators = Some [(''id_generator'', ''G2'')]\<rparr>
     (Some \<lparr>name = ''path'',
            typ_deserialize = Mapping Ignore
              (map (path_node (\<lambda>r s. r = s) (\<lambda>v. None)) [(''id'', ''G2'')]),
            validator = no_validator, missing = Required\<rparr>)
   = Inr (Some \<lparr>name = ''path'',
                 typ_deserialize = Mapping Ignore
                   (map (path_node (\<lambda>r s. r = s) (\<lambda>v. None)) [(''id'', ''G2'')]),
                 validator = no_validator, missing = Required\<rparr>)"
proof -
  have h: "bind_path (\<lambda>r s. r = s) (\<lambda>v. None) (\<lambda>g. Inr (Some g)) ''baseline''
     \<lparr>kw_path = Some ''/bars/{id}'', kw_resource_name = Some ''bar'',
      kw_id_generators = Some [(''id_generator'', ''G2'')]\<rparr> None
   = Inr (Some \<lparr>name = ''path'',
                 typ_deserialize = Mapping Ignore
                   (map (path_node (\<lambda>r s. r = s) (\<lambda>v. None)) [(''id'', ''G2'')]),
                 validator = no_validator, missing = Required\<rparr>)"
    by (simp add: bind_path_def build_path_def build_path_fields_def resource_ids_of_def
        resolve_regexp_def py_or_def startswith_def)
  from bind_path_idempotent [OF h] have "bind_path (\<lambda>r s. r = s) (\<lambda>v. None) (\<lambda>g. Inr (Some g)) ''baseline''
     \<lparr>kw_path = Some ''/bars/{id}'', kw_resource_name = Some ''bar'',
      kw_id_generators = Some [(''id_generator'', ''G2'')]\<rparr>
     (Some \<lparr>name = ''path'',
            typ_deserialize = Mapping Ignore
              (map (path_node (\<lambda>r s. r = s) (\<lambda>v. None)) [(''id'', ''G2'')]),
            validator = no_validator, missing = Required\<rparr>)
   = Inr (Some \<lparr>name = ''path'',
                 typ_deserialize = Mapping Ignore
                   (map (path_node (\<lambda>r s. r = s) (\<lambda>v. None)) [(''id'', ''G2'')]),
                 validator = no_validator, missing = Required\<rparr>)"
    by blast
  with h show ?thesis by (rule conjI)
qed

subsection \<open>Querystring\<close>

lemma map_of_dict_update:
  "distinct (map fst e) \<Longrightarrow> map_of (dict_update d e) = map_of d ++ map_of e"
proof (induction e arbitrary: d)
  case Nil
  then show ?case by (simp add: dict_update_def)
next
  case (Cons x e)
  obtain k v where x: "x = (k, v)" by (cases x)
  from Cons.prems x have k: "k \<notin> fst ` set e" and d: "distinct (map fst e)" by auto
  have "map_of (dict_update d (x # e)) = map_of (dict_update (AList.update k v d) e)"
    by (simp add: dict_update_def x)
  also have "\<dots> = map_of (AList.update k v d) ++ map_of e"
    by (rule Cons.IH [OF d])
  also have "\<dots> = (map_of d)(k \<mapsto> v) ++ map_of e"
    by (simp add: update_conv')
  also have "\<dots> = map_of d ++ map_of (x # e)"
  proof (rule ext)
    fix a
    have "map_of e k = None" using k by (simp add: map_of_eq_None_iff)
    then show "((map_of d)(k \<mapsto> v) ++ map_of e) a = (map_of d ++ map_of (x # e)) a"
      by (cases "a = k") (auto simp: x map_add_def split: option.splits)
  qed
  finally show ?case .
qed


lemma Mapping_children_distinct:
  "Mapping_children ns value (errs, acc) = (errs', result) \<Longrightarrow> distinct (map fst acc)
     \<Longrightarrow> distinct (map fst result)"
proof (induction ns arbitrary: errs acc)
  case Nil
  then show ?case by simp
next
  case (Cons n ns)
  show ?case
  proof (cases "SchemaNode_deserialize n (map_of value (name n))")
    case (Inl e)
    with Cons.prems have "Mapping_children ns value (errs @ e, acc) = (errs', result)" by simp
    from Cons.IH [OF this Cons.prems(2)] show ?thesis .
  next
    case (Inr d)
    show ?thesis
    proof (cases d)
      case Drop
      with Inr Cons.prems have "Mapping_children ns value (errs, acc) = (errs', result)" by simp
      from Cons.IH [OF this Cons.prems(2)] show ?thesis .
    next
      case (Value v)
      with Inr Cons.prems
      have "Mapping_children ns value (errs, AList.update (name n) v acc) = (errs', result)" by simp
      from Cons.IH [OF this] Cons.prems(2) show ?thesis by (simp add: distinct_update)
    qed
  qed
qed

lemma Mapping_children_keys:
  "Mapping_children ns value (errs, acc) = (errs', result)
     \<Longrightarrow> fst ` set result \<subseteq> fst ` set acc \<union> set (map name ns)"
proof (induction ns arbitrary: errs acc)
  case Nil
  then show ?case by simp
next
  case (Cons n ns)
  show ?case
  proof (cases "SchemaNode_deserialize n (map_of value (name n))")
    case (Inl e)
    with Cons.prems have "Mapping_children ns value (errs @ e, acc) = (errs', result)" by simp
    from Cons.IH [OF this] show ?thesis by auto
  next
    case (Inr d)
    show ?thesis
    proof (cases d)
      case Drop
      with Inr Cons.prems have "Mapping_children ns value (errs, acc) = (errs', result)" by simp
      from Cons.IH [OF this] show ?thesis by auto
    next
      case (Value v)
      with Inr Cons.prems
      have "Mapping_children ns value (errs, AList.update (name n) v acc) = (errs', result)" by simp
      from Cons.IH [OF this] show ?thesis by (auto simp: AList.dom_update)
    qed
  qed
qed

lemma QuerySchema_node_declared:
  assumes "SchemaNode_deserialize (QuerySchema_node children) cstruct = Inr (Value sv)"
  shows "\<exists>items declared. cstruct = Some (JObj items) \<and> sv = JObj declared
            \<and> distinct (map fst declared) \<and> fst ` set declared \<subseteq> set (map name children)"
proof -
  from assms obtain items where c: "cstruct = Some (JObj items)"
    by (auto simp: SchemaNode_deserialize_def QuerySchema_node_def Mapping_def no_validator_def
        split: option.splits json.splits sum.splits)
  obtain errs result where mc: "Mapping_children children items ([], []) = (errs, result)"
    by (cases "Mapping_children children items ([], [])")
  from assms c mc have sv: "sv = JObj result"
    by (auto simp: SchemaNode_deserialize_def QuerySchema_node_def Mapping_def no_validator_def
        Let_def split: if_splits)
  from Mapping_children_distinct [OF mc] Mapping_children_keys [OF mc] c sv
  show ?thesis by auto
qed

text \<open>
  C2. Whenever the querystring resolver returns a mapping, that mapping is the inferred
  filter values updated with the values of the declared schema: as a dict it is the
  inferred values overwritten by the declared ones, so a key that both produce carries
  the declared value.
\<close>

theorem declared_values_overwrite_inferred:
  assumes "QuerySchema_deserialize native_value FieldList children cstruct = Inr (Value out)"
  shows "\<exists>items declared values.
           cstruct = Some (JObj items)
         \<and> SchemaNode_deserialize (QuerySchema_node children) cstruct = Inr (Value (JObj declared))
         \<and> QuerySchema_filters native_value FieldList items [] = Inr values
         \<and> out = JObj (dict_update values declared)
         \<and> map_of (dict_update values declared) = map_of values ++ map_of declared"
proof -
  from assms obtain sv where sv:
    "SchemaNode_deserialize (QuerySchema_node children) cstruct = Inr (Value sv)"
    by (auto simp: QuerySchema_deserialize_def split: sum.splits deserialized.splits)
  from QuerySchema_node_declared [OF sv] obtain items declared where
    d: "cstruct = Some (JObj items)" "sv = JObj declared" "distinct (map fst declared)"
    by auto
  from assms sv d obtain vals where
    v: "QuerySchema_filters native_value FieldList items [] = Inr vals"
       "out = JObj (dict_update vals declared)"
    by (auto simp: QuerySchema_deserialize_def split: sum.splits)
  from sv d v map_of_dict_update [OF d(3)] show ?thesis by auto
qed

theorem declared_values_overwrite_inferred_witness:
  "QuerySchema_deserialize (\<lambda>v. v)
      \<lparr>name = [], typ_deserialize = Any, validator = no_validator, missing = DropMissing\<rparr>
      [QueryField ''_limit'' (Integer (\<lambda>s. if s = ''5'' then Some 5 else None))
         (on_int positive_big_integer)]
      (Some (JObj [(''_limit'', JStr ''5''), (''deleted'', JStr ''true'')]))
    = Inr (Value (JObj [(''_limit'', JInt 5), (''deleted'', JStr ''true'')]))
   \<and> (\<exists>items declared vals.
         Some (JObj [(''_limit'', JStr ''5''), (''deleted'', JStr ''true'')]) = Some (JObj items)
       \<and> SchemaNode_deserialize
            (QuerySchema_node
               [QueryField ''_limit'' (Integer (\<lambda>s. if s = ''5'' then Some 5 else None))
                  (on_int positive_big_integer)])
            (Some (JObj [(''_limit'', JStr ''5''), (''deleted'', JStr ''true'')]))
          = Inr (Value (JObj declared))
       \<and> QuerySchema_filters (\<lambda>v. v)
            \<lparr>name = [], typ_deserialize = Any, validator = no_validator, missing = DropMissing\<rparr>
            items [] = Inr vals
       \<and> JObj [(''_limit'', JInt 5), (''deleted'', JStr ''true'')]
          = JObj (dict_update vals declared)
       \<and> map_of (dict_update vals declared) = map_of vals ++ map_of declared)"
proof -
  have h: "QuerySchema_deserialize (\<lambda>v. v)
      \<lparr>name = [], typ_deserialize = Any, validator = no_validator, missing = DropMissing\<rparr>
      [QueryField ''_limit'' (Integer (\<lambda>s. if s = ''5'' then Some 5 else None))
         (on_int positive_big_integer)]
      (Some (JObj [(''_limit'', JStr ''5''), (''deleted'', JStr ''true'')]))
    = Inr (Value (JObj [(''_limit'', JInt 5), (''deleted'', JStr ''true'')]))"
    by (simp add: QuerySchema_deserialize_def QuerySchema_node_def SchemaNode_deserialize_def
        Mapping_def leftover_def QueryField_def Integer_def on_int_def positive_big_integer_def
        Range_def POSTGRESQL_MAX_INTEGER_VALUE_def no_validator_def startswith_def dict_update_def)
  from h declared_values_overwrite_inferred [OF h] show ?thesis
    by (rule conjI)
qed














subsection \<open>Permissions\<close>

lemma check_perms_find:
  "check_perms known_perms nm keys =
     (case find (\<lambda>k. k \<notin> set known_perms) keys of
        None \<Rightarrow> None
      | Some k \<Rightarrow> Some [([nm], ''\"'' @ k @ ''\" is not one of '' @ join '', '' known_perms)])"
  by (induction keys) (auto simp: OneOf_def)

lemma setitem_names: "name ` set (setitem n ms) = insert (name n) (name ` set ms)"
  by (induction ms) auto

lemma setitem_subset: "set (setitem n ms) \<subseteq> insert n (set ms)"
  by (induction ms) auto

lemma setitem_distinct: "distinct (map name ms) \<Longrightarrow> distinct (map name (setitem n ms))"
proof (induction ms)
  case Nil
  then show ?case by simp
next
  case (Cons m ms)
  then show ?case using setitem_names [of n ms] by (auto simp: image_iff) 
qed

lemma fold_setitem:
  "name ` set (fold (\<lambda>perm. setitem (get_node_principals text_type perm)) perms acc)
       = set perms \<union> name ` set acc
   \<and> set (fold (\<lambda>perm. setitem (get_node_principals text_type perm)) perms acc)
       \<subseteq> set acc \<union> get_node_principals text_type ` set perms
   \<and> (distinct (map name acc) \<longrightarrow>
        distinct (map name (fold (\<lambda>perm. setitem (get_node_principals text_type perm)) perms acc)))"
proof (induction perms arbitrary: acc)
  case Nil
  then show ?case by simp
next
  case (Cons p perms)
  have n: "name (get_node_principals text_type p) = p" by (simp add: get_node_principals_def)
  from Cons [of "setitem (get_node_principals text_type p) acc"]
    setitem_names [of "get_node_principals text_type p" acc]
    setitem_subset [of "get_node_principals text_type p" acc]
    setitem_distinct [of acc "get_node_principals text_type p"]
  show ?case by (auto simp: n)
qed

lemma PermissionsSchema_children_props:
  "set (map name (PermissionsSchema_children text_type known_perms)) = set known_perms"
  "set (PermissionsSchema_children text_type known_perms)
     \<subseteq> get_node_principals text_type ` set known_perms"
  "distinct (map name (PermissionsSchema_children text_type known_perms))"
  using fold_setitem [of text_type known_perms "[]"]
  by (auto simp: PermissionsSchema_children_def)

lemma Sequence_children_strings:
  "[] \<notin> set ps \<Longrightarrow>
     Sequence_children (principal text_type) num (map JStr ps) = ([], map JStr ps)"
  by (induction ps arbitrary: num)
     (auto simp: SchemaNode_deserialize_def principal_def String_def no_validator_def)

lemma principals_deserialize:
  "[] \<notin> set ps \<Longrightarrow>
     SchemaNode_deserialize (get_node_principals text_type perm) (Some (JList (map JStr ps)))
       = Inr (Value (JList (map JStr ps)))"
  by (simp add: SchemaNode_deserialize_def get_node_principals_def Sequence_def
      Sequence_children_strings no_validator_def)

lemma principals_absent:
  "SchemaNode_deserialize (get_node_principals text_type perm) None = Inr Drop"
  by (simp add: SchemaNode_deserialize_def get_node_principals_def Sequence_def)


lemma Mapping_children_perms:
  assumes "\<forall>(k, v) \<in> set items. \<exists>ps. v = JList (map JStr ps) \<and> [] \<notin> set ps"
  shows "\<forall>n \<in> set ns. n = get_node_principals text_type (name n) \<Longrightarrow>
     \<exists>acc'. Mapping_children ns items (errs, acc) = (errs, acc')
          \<and> map_of acc' = (\<lambda>k. if k \<in> set (map name ns) \<and> map_of items k \<noteq> None
                                 then map_of items k else map_of acc k)"
proof (induction ns arbitrary: acc)
  case Nil
  then show ?case by simp
next
  case (Cons n ns)
  from Cons.prems have n: "n = get_node_principals text_type (name n)"
    and rest: "\<forall>n \<in> set ns. n = get_node_principals text_type (name n)" by auto
  show ?case
  proof (cases "map_of items (name n)")
    case None
    then have "SchemaNode_deserialize n (map_of items (name n)) = Inr Drop"
      using principals_absent [of text_type "name n"] n by simp
    then have step: "Mapping_children (n # ns) items (errs, acc) = Mapping_children ns items (errs, acc)"
      by simp
    from Cons.IH [OF rest, of acc] obtain acc' where
      a: "Mapping_children ns items (errs, acc) = (errs, acc')"
         "map_of acc' = (\<lambda>k. if k \<in> set (map name ns) \<and> map_of items k \<noteq> None
                                 then map_of items k else map_of acc k)" by blast
    show ?thesis
      by (rule exI [of _ acc']) (use step a None in \<open>auto simp: fun_eq_iff\<close>)
  next
    case (Some v)
    then have "(name n, v) \<in> set items" by (rule map_of_SomeD)
    with assms obtain ps where ps: "v = JList (map JStr ps)" "[] \<notin> set ps" by auto
    have "SchemaNode_deserialize n (map_of items (name n)) = Inr (Value v)"
      using principals_deserialize [OF ps(2), of text_type "name n"] n Some ps(1) by simp
    then have step: "Mapping_children (n # ns) items (errs, acc)
        = Mapping_children ns items (errs, AList.update (name n) v acc)"
      by simp
    from Cons.IH [OF rest, of "AList.update (name n) v acc"] obtain acc' where
      a: "Mapping_children ns items (errs, AList.update (name n) v acc) = (errs, acc')"
         "map_of acc' = (\<lambda>k. if k \<in> set (map name ns) \<and> map_of items k \<noteq> None
                                 then map_of items k else map_of (AList.update (name n) v acc) k)"
      by blast
    show ?thesis
      by (rule exI [of _ acc']) (use step a Some in \<open>auto simp: fun_eq_iff update_conv'\<close>)
  qed
qed

text \<open>
  C5, as amended. With a closed set \<open>known_perms\<close> that is not empty: when some key of
  the input mapping is not a known permission, validation fails on the permissions node
  with the message \<^verbatim>\<open>"k" is not one of p1, p2, ...\<close>, where \<open>k\<close> is the first such
  key and the list is all of \<open>known_perms\<close>; when every key is a known permission and
  every value is a list of strings none of which is empty, deserialisation succeeds and
  returns, as a dict, the entries of the input.
\<close>

theorem permissions_known_perms:
  assumes "known_perms \<noteq> []"
  shows "(\<forall>k. find (\<lambda>k. k \<notin> set known_perms) (map fst items) = Some k \<longrightarrow>
            PermissionsSchema_deserialize text_type known_perms nm mis (Some (JObj items))
              = Inl [([nm], ''\"'' @ k @ ''\" is not one of '' @ join '', '' known_perms)])
       \<and> (set (map fst items) \<subseteq> set known_perms \<longrightarrow>
          (\<forall>(k, v) \<in> set items. \<exists>ps. v = JList (map JStr ps) \<and> [] \<notin> set ps) \<longrightarrow>
          (\<exists>out. PermissionsSchema_deserialize text_type known_perms nm mis (Some (JObj items))
                   = Inr (Value (JObj out))
                 \<and> map_of out = map_of items))"
proof (intro conjI allI impI)
  fix k
  assume "find (\<lambda>k. k \<notin> set known_perms) (map fst items) = Some k"
  with assms show "PermissionsSchema_deserialize text_type known_perms nm mis (Some (JObj items))
              = Inl [([nm], ''\"'' @ k @ ''\" is not one of '' @ join '', '' known_perms)]"
    by (simp add: PermissionsSchema_deserialize_def check_perms_find)
next
  assume keys: "set (map fst items) \<subseteq> set known_perms"
    and vals: "\<forall>(k, v) \<in> set items. \<exists>ps. v = JList (map JStr ps) \<and> [] \<notin> set ps"
  let ?ch = "PermissionsSchema_children text_type known_perms"
  have names: "set (map name ?ch) = set known_perms"
    by (rule PermissionsSchema_children_props)
  have "\<forall>n \<in> set ?ch. n = get_node_principals text_type (name n)"
    using PermissionsSchema_children_props(2) [of text_type known_perms]
    by (auto simp: get_node_principals_def)
  from Mapping_children_perms [OF vals this, of "[]" "[]"] obtain out where
    out: "Mapping_children ?ch items ([], []) = ([], out)"
         "map_of out = (\<lambda>k. if k \<in> set (map name ?ch) \<and> map_of items k \<noteq> None
                                 then map_of items k else map_of [] k)" by blast
  have m: "map_of out = map_of items"
  proof (rule ext)
    fix k
    show "map_of out k = map_of items k"
    proof (cases "map_of items k")
      case None
      then show ?thesis by (simp add: out(2))
    next
      case (Some v)
      then have "(k, v) \<in> set items" by (rule map_of_SomeD)
      then have "k \<in> fst ` set items" by force
      with keys names have "k \<in> set (map name ?ch)" by auto
      with Some show ?thesis by (simp add: out(2))
    qed
  qed
  have none: "find (\<lambda>k. k \<notin> set known_perms) (map fst items) = None"
    using keys by (auto simp: find_None_iff)
  have left: "leftover ?ch items = []"
    using keys names by (auto simp: leftover_def filter_empty_conv)
  have "PermissionsSchema_deserialize text_type known_perms nm mis (Some (JObj items))
          = Inr (Value (JObj out))"
    using assms none left out(1)
    by (simp add: PermissionsSchema_deserialize_def check_perms_find PermissionsSchema_node_def
        SchemaNode_deserialize_def Mapping_def no_validator_def)
  with m show "\<exists>out. PermissionsSchema_deserialize text_type known_perms nm mis (Some (JObj items))
                   = Inr (Value (JObj out)) \<and> map_of out = map_of items"
    by blast
qed

theorem permissions_known_perms_witness:
  "PermissionsSchema_deserialize (\<lambda>v. None) [''read'', ''write''] ''permissions'' DropMissing
      (Some (JObj [(''delete'', JList [])]))
    = Inl [([''permissions''],
            ''\"'' @ ''delete'' @ ''\" is not one of '' @ join '', '' [''read'', ''write''])]
   \<and> (\<exists>out. PermissionsSchema_deserialize (\<lambda>v. None) [''read'', ''write''] ''permissions''
                DropMissing (Some (JObj [(''read'', JList [JStr ''fxa:abc''])]))
              = Inr (Value (JObj out))
            \<and> map_of out = map_of [(''read'', JList [JStr ''fxa:abc''])])"
proof -
  have k: "[''read'', ''write''] \<noteq> []" by simp
  have f: "find (\<lambda>k. k \<notin> set [''read'', ''write'']) (map fst [(''delete'', JList [])])
             = Some ''delete''"
    by simp
  have s: "set (map fst [(''read'', JList [JStr ''fxa:abc''])]) \<subseteq> set [''read'', ''write'']"
    by simp
  have "JList [JStr ''fxa:abc''] = JList (map JStr [''fxa:abc'']) \<and> [] \<notin> set [''fxa:abc'']"
    by simp
  then have "\<exists>ps. JList [JStr ''fxa:abc''] = JList (map JStr ps) \<and> [] \<notin> set ps"
    by (rule exI)
  then have v: "\<forall>(k, v) \<in> set [(''read'', JList [JStr ''fxa:abc''])].
                 \<exists>ps. v = JList (map JStr ps) \<and> [] \<notin> set ps"
    by simp
  from permissions_known_perms [OF k, THEN conjunct1, THEN spec, THEN mp, OF f]
       permissions_known_perms [OF k, THEN conjunct2, THEN mp, THEN mp, OF s v]
  show ?thesis by (rule conjI)
qed

text \<open>
  C5, as stated, fails: \<^verbatim>\<open>{"read": [""]}\<close> has a known key and a list of strings as its
  value, and is rejected, the empty principal being \<^verbatim>\<open>Required\<close>
  (\<^verbatim>\<open>colander.String\<close> takes an empty string as no value).
\<close>

theorem empty_principal_rejected:
  "PermissionsSchema_deserialize (\<lambda>v. None) [''read'', ''write''] ''permissions'' DropMissing
        (Some (JObj [(''read'', JList [JStr []])]))
    = Inl [([''permissions'', ''read'', ''0''], ''Required'')]"
  by (simp add: PermissionsSchema_deserialize_def OneOf_def PermissionsSchema_node_def
      PermissionsSchema_children_def get_node_principals_def principal_def
      SchemaNode_deserialize_def Mapping_def leftover_def Sequence_def String_def under_def
      show_nat.simps digits_def)

subsection \<open>Record body\<close>

lemma Mapping_children_errs:
  "Mapping_children ns value (errs, acc) = (errs', result) \<Longrightarrow> set errs \<subseteq> set errs'"
proof (induction ns arbitrary: errs acc)
  case Nil
  then show ?case by simp
next
  case (Cons n ns)
  from Cons.prems obtain errs1 acc1 where
    step: "Mapping_children ns value (errs1, acc1) = (errs', result)" and "set errs \<subseteq> set errs1"
    by (auto split: sum.splits deserialized.splits)
  with Cons.IH [OF step] show ?case by auto
qed

lemma Mapping_children_required:
  "f \<in> set ns \<Longrightarrow> missing f = Required \<Longrightarrow> typ_deserialize f None = Inr None \<Longrightarrow>
     Mapping_children ns [] (errs, acc) = (errs', result) \<Longrightarrow> ([name f], ''Required'') \<in> set errs'"
proof (induction ns arbitrary: errs acc)
  case Nil
  then show ?case by simp
next
  case (Cons n ns)
  show ?case
  proof (cases "f = n")
    case True
    with Cons.prems have "SchemaNode_deserialize n (map_of [] (name n)) = Inl [([name f], ''Required'')]"
      by (simp add: SchemaNode_deserialize_def)
    with Cons.prems(4) have "Mapping_children ns [] (errs @ [([name f], ''Required'')], acc) = (errs', result)"
      by simp
    from Mapping_children_errs [OF this] show ?thesis by auto
  next
    case False
    with Cons.prems have f: "f \<in> set ns" by simp
    from Cons.prems(4) obtain errs1 acc1 where
      step: "Mapping_children ns [] (errs1, acc1) = (errs', result)"
      by (auto split: sum.splits deserialized.splits)
    from Cons.IH [OF f Cons.prems(2,3) step] show ?thesis .
  qed
qed

lemma ResourceSchema_required_field:
  assumes "f \<in> set children" "missing f = Required" "typ_deserialize f None = Inr None"
  shows "\<exists>e. SchemaNode_deserialize (ResourceSchema preserve_unknown children) (Some (JObj [])) = Inl e
            \<and> ([[], name f], ''Required'') \<in> set e"
proof -
  obtain errs result where mc: "Mapping_children children [] ([], []) = (errs, result)"
    by (cases "Mapping_children children [] ([], [])")
  from Mapping_children_required [OF assms mc] have in_errs: "([name f], ''Required'') \<in> set errs" .
  then have "errs \<noteq> []" by auto
  with mc in_errs show ?thesis
    by (auto simp: SchemaNode_deserialize_def ResourceSchema_def Mapping_def leftover_def under_def
        image_iff intro!: bexI [of _ "([name f], ''Required'')"])
qed

lemma RecordSchema_deserialize:
  "SchemaNode_deserialize (RecordSchema data perms) c =
     (case Mapping Raise (RecordSchema_children data perms) c of
        Inl e \<Rightarrow> Inl (under ''body'' e)
      | Inr None \<Rightarrow> Inl [([''body''], ''Required'')]
      | Inr (Some v) \<Rightarrow> Inr (Value v))"
  by (simp add: RecordSchema_def SchemaNode_deserialize_def no_validator_def
      split: sum.splits option.splits)

lemma Mapping_empty_object:
  "Mapping Raise ch (Some (JObj [])) =
     (case Mapping_children ch [] ([], []) of
        (errs, result) \<Rightarrow> if errs \<noteq> [] then Inl errs else Inr (Some (JObj result)))"
  by (simp add: Mapping_def leftover_def split: prod.splits)

lemma RecordSchema_data_None: "RecordSchema_data None = None"
  by (simp add: RecordSchema_data_def)

lemma absent_data_dropped:
  "typ_deserialize data None = Inr None \<Longrightarrow>
     SchemaNode_deserialize (named ''data'' (data\<lparr>missing := DropMissing\<rparr>)) None = Inr Drop"
  by (simp add: named_def SchemaNode_deserialize_def)

lemma absent_data_required:
  "typ_deserialize data None = Inr None \<Longrightarrow> missing data = Required \<Longrightarrow>
     SchemaNode_deserialize (named ''data'' data) None
       = Inl [([name (named ''data'' data)], ''Required'')]"
  by (simp add: named_def SchemaNode_deserialize_def)

text \<open>
  C4, as amended. Let the data schema be a node whose type deserialises an absent value
  to null, as the colander types do, and let the body be the empty object (what an absent
  body is validated as): it has no \<^verbatim>\<open>data\<close>.
  \<^item> If the data schema deserialises the empty object, \<^verbatim>\<open>data\<close> is dropped: the body
    validates exactly as it does against the permissions schema alone.
  \<^item> Against the permissions schema alone it yields the empty object, when that schema is
    unbound or is dropped when absent. The defaults of the data fields are not filled in.
  \<^item> If the data schema rejects the empty object and is required, the body fails: its
    errors are \<^verbatim>\<open>Required\<close> on the \<^verbatim>\<open>data\<close> node itself, followed by the errors of the
    permissions node, if it raises any.
  \<^item> A resource schema with a required field is required and rejects the empty object,
    naming that field in its own error.
\<close>

theorem record_body_without_data:
  assumes "typ_deserialize data None = Inr None"
  shows "(\<forall>r. SchemaNode_deserialize data (Some (JObj [])) = Inr r \<longrightarrow>
            SchemaNode_deserialize (RecordSchema (Some data) perms) (Some (JObj []))
              = SchemaNode_deserialize (RecordSchema None perms) (Some (JObj [])))
       \<and> (perms = None \<or> (\<exists>p. perms = Some p
               \<and> SchemaNode_deserialize (named ''permissions'' p) None = Inr Drop) \<longrightarrow>
            SchemaNode_deserialize (RecordSchema None perms) (Some (JObj [])) = Inr (Value (JObj [])))
       \<and> (\<forall>e. SchemaNode_deserialize data (Some (JObj [])) = Inl e \<longrightarrow> missing data = Required \<longrightarrow>
            SchemaNode_deserialize (RecordSchema (Some data) perms) (Some (JObj []))
              = Inl (([''body'', name (named ''data'' data)], ''Required'')
                     # (case perms of
                          None \<Rightarrow> []
                        | Some p \<Rightarrow>
                            (case SchemaNode_deserialize (named ''permissions'' p) None of
                               Inl pe \<Rightarrow> under ''body'' pe
                             | Inr x \<Rightarrow> []))))
       \<and> (\<forall>preserve_unknown children f.
            data = ResourceSchema preserve_unknown children \<longrightarrow> f \<in> set children \<longrightarrow>
            missing f = Required \<longrightarrow> typ_deserialize f None = Inr None \<longrightarrow>
            missing data = Required
            \<and> (\<exists>e. SchemaNode_deserialize data (Some (JObj [])) = Inl e
                    \<and> ([[], name f], ''Required'') \<in> set e))"
proof (intro conjI allI impI)
  {
    fix r
    assume ok: "SchemaNode_deserialize data (Some (JObj [])) = Inr r"
    then have d: "RecordSchema_data (Some data) = Some (data\<lparr>missing := DropMissing\<rparr>)"
      by (simp add: RecordSchema_data_def)
    have "Mapping_children (RecordSchema_children (Some data) perms) [] ([], [])
            = Mapping_children (RecordSchema_children None perms) [] ([], [])"
      by (simp add: RecordSchema_children_def d RecordSchema_data_None
          absent_data_dropped [OF assms])
    then show "SchemaNode_deserialize (RecordSchema (Some data) perms) (Some (JObj []))
              = SchemaNode_deserialize (RecordSchema None perms) (Some (JObj []))"
      by (simp add: RecordSchema_deserialize Mapping_empty_object)
  }
  {
    assume "perms = None \<or> (\<exists>p. perms = Some p
               \<and> SchemaNode_deserialize (named ''permissions'' p) None = Inr Drop)"
    then have "Mapping_children (RecordSchema_children None perms) [] ([], []) = ([], [])"
      by (auto simp: RecordSchema_children_def RecordSchema_data_def)
    then show "SchemaNode_deserialize (RecordSchema None perms) (Some (JObj []))
                 = Inr (Value (JObj []))"
      by (simp add: RecordSchema_deserialize Mapping_empty_object)
  }
  {
    fix e
    assume bad: "SchemaNode_deserialize data (Some (JObj [])) = Inl e"
      and req: "missing data = Required"
    from bad have d: "RecordSchema_data (Some data) = Some data"
      by (simp add: RecordSchema_data_def)
    let ?err = "([name (named ''data'' data)], ''Required'')"
    have "\<exists>result. Mapping_children (RecordSchema_children (Some data) perms) [] ([], [])
            = (?err # (case perms of
                          None \<Rightarrow> []
                        | Some p \<Rightarrow>
                            (case SchemaNode_deserialize (named ''permissions'' p) None of
                               Inl pe \<Rightarrow> pe
                             | Inr x \<Rightarrow> [])), result)"
      by (auto simp: RecordSchema_children_def d absent_data_required [OF assms req]
          split: option.splits sum.splits deserialized.splits)
    then show "SchemaNode_deserialize (RecordSchema (Some data) perms) (Some (JObj []))
              = Inl (([''body'', name (named ''data'' data)], ''Required'')
                     # (case perms of
                          None \<Rightarrow> []
                        | Some p \<Rightarrow>
                            (case SchemaNode_deserialize (named ''permissions'' p) None of
                               Inl pe \<Rightarrow> under ''body'' pe
                             | Inr x \<Rightarrow> [])))"
      by (auto simp: RecordSchema_deserialize Mapping_empty_object under_def
          split: option.splits sum.splits)
  }
  {
    fix preserve_unknown children f
    assume D: "data = ResourceSchema preserve_unknown children"
      and f: "f \<in> set children" "missing f = Required" "typ_deserialize f None = Inr None"
    from D show "missing data = Required" by (simp add: ResourceSchema_def)
    from ResourceSchema_required_field [OF f, of preserve_unknown] D
    show "\<exists>e. SchemaNode_deserialize data (Some (JObj [])) = Inl e
               \<and> ([[], name f], ''Required'') \<in> set e"
      by simp
  }
qed

theorem record_body_without_data_witness:
  "SchemaNode_deserialize
     (RecordSchema
        (Some (ResourceSchema True
           [\<lparr>name = ''title'', typ_deserialize = String (\<lambda>v. None),
              validator = no_validator, missing = Default (JStr ''untitled'')\<rparr>]))
        None)
     (Some (JObj []))
   = Inr (Value (JObj []))
   \<and> SchemaNode_deserialize
     (RecordSchema
        (Some (ResourceSchema True
           [\<lparr>name = ''title'', typ_deserialize = String (\<lambda>v. None),
              validator = no_validator, missing = Required\<rparr>]))
        (Some (PermissionsSchema_node (\<lambda>v. None) [] ''permissions'' Required)))
     (Some (JObj []))
   = Inl [([''body'', ''data''], ''Required''), ([''body'', ''permissions''], ''Required'')]"
proof -
  let ?opt = "ResourceSchema True
           [\<lparr>name = ''title'', typ_deserialize = String (\<lambda>v. None),
              validator = no_validator, missing = Default (JStr ''untitled'')\<rparr>]"
  let ?req = "ResourceSchema True
           [\<lparr>name = ''title'', typ_deserialize = String (\<lambda>v. None),
              validator = no_validator, missing = Required\<rparr>]"
  let ?P = "PermissionsSchema_node (\<lambda>v. None) [] ''permissions'' Required"
  have t1: "typ_deserialize ?opt None = Inr None" by (simp add: ResourceSchema_def Mapping_def)
  have t2: "typ_deserialize ?req None = Inr None" by (simp add: ResourceSchema_def Mapping_def)
  have a: "SchemaNode_deserialize ?opt (Some (JObj []))
             = Inr (Value (JObj [(''title'', JStr ''untitled'')]))"
    by (simp add: ResourceSchema_def SchemaNode_deserialize_def Mapping_def leftover_def
        String_def no_validator_def dict_update_def)
  have p: "(None :: node option) = None
            \<or> (\<exists>p. (None :: node option) = Some p
                 \<and> SchemaNode_deserialize (named ''permissions'' p) None = Inr Drop)"
    by simp
  have b: "SchemaNode_deserialize ?req (Some (JObj [])) = Inl [([[], ''title''], ''Required'')]"
    by (simp add: ResourceSchema_def SchemaNode_deserialize_def Mapping_def leftover_def
        String_def under_def)
  have m: "missing ?req = Required" by (simp add: ResourceSchema_def)
  have nm: "name (named ''data'' ?req) = ''data''" by (simp add: named_def ResourceSchema_def)
  have pe: "SchemaNode_deserialize (named ''permissions'' ?P) None
              = Inl [([''permissions''], ''Required'')]"
    by (simp add: named_def PermissionsSchema_node_def SchemaNode_deserialize_def Mapping_def)
  from record_body_without_data [OF t1, of None, THEN conjunct1, THEN spec, THEN mp, OF a]
       record_body_without_data [OF t1, of None, THEN conjunct2, THEN conjunct1, THEN mp, OF p]
  have 1: "SchemaNode_deserialize (RecordSchema (Some ?opt) None) (Some (JObj []))
             = Inr (Value (JObj []))"
    by (rule trans)
  from record_body_without_data [OF t2, of "Some ?P", THEN conjunct2, THEN conjunct2,
         THEN conjunct1, THEN spec, THEN mp, THEN mp, OF b m]
  have 2: "SchemaNode_deserialize (RecordSchema (Some ?req) (Some ?P)) (Some (JObj []))
             = Inl [([''body'', ''data''], ''Required''), ([''body'', ''permissions''], ''Required'')]"
    by (simp add: nm pe under_def)
  from 1 2 show ?thesis by (rule conjI)
qed

text \<open>
  C4, as stated, fails. With a data schema whose field \<^verbatim>\<open>title\<close> is required, the body
  without \<^verbatim>\<open>data\<close> fails with an error on \<^verbatim>\<open>body.data\<close> that does not name
  \<^verbatim>\<open>title\<close>. With a data schema whose field has the default \<^verbatim>\<open>untitled\<close>, the
  all-defaults object is \<^verbatim>\<open>{"title": "untitled"}\<close>, the body without \<^verbatim>\<open>data\<close>
  yields \<^verbatim>\<open>{}\<close>, and a body that is \<^verbatim>\<open>colander.null\<close> is still \<^verbatim>\<open>Required\<close>.
\<close>

theorem absent_data_error_names_data:
  "SchemaNode_deserialize
     (RecordSchema
        (Some (ResourceSchema True
           [\<lparr>name = ''title'', typ_deserialize = String (\<lambda>v. None),
              validator = no_validator, missing = Required\<rparr>]))
        None)
     (Some (JObj []))
   = Inl [([''body'', ''data''], ''Required'')]
   \<and> ''title'' \<notin> set [''body'', ''data'']
   \<and> SchemaNode_deserialize
     (ResourceSchema True
        [\<lparr>name = ''title'', typ_deserialize = String (\<lambda>v. None),
           validator = no_validator, missing = Default (JStr ''untitled'')\<rparr>])
     (Some (JObj []))
   = Inr (Value (JObj [(''title'', JStr ''untitled'')]))
   \<and> SchemaNode_deserialize
     (RecordSchema
        (Some (ResourceSchema True
           [\<lparr>name = ''title'', typ_deserialize = String (\<lambda>v. None),
              validator = no_validator, missing = Default (JStr ''untitled'')\<rparr>]))
        None)
     (Some (JObj []))
   = Inr (Value (JObj []))
   \<and> SchemaNode_deserialize
     (RecordSchema
        (Some (ResourceSchema True
           [\<lparr>name = ''title'', typ_deserialize = String (\<lambda>v. None),
              validator = no_validator, missing = Default (JStr ''untitled'')\<rparr>]))
        None)
     None
   = Inl [([''body''], ''Required'')]"
  by (simp add: RecordSchema_def RecordSchema_children_def RecordSchema_data_def named_def
      ResourceSchema_def SchemaNode_deserialize_def Mapping_def leftover_def String_def
      no_validator_def dict_update_def under_def)

end
